theory Spec2Isabelle
  imports Complex_Main
begin

section \<open>Conventions of the embedding\<close>

text \<open>
  The Go program is embedded shallowly.
  \<^item> \<open>float64\<close> values are modelled as \<open>real\<close>: the claims verified here are about
    the control flow over prices, ratios and sums, not about rounding, NaN or infinities.
  \<^item> \<open>int64\<close> and \<open>int\<close> values are modelled as \<open>int\<close>; every arithmetic operation
    of the source on them is wrapped by \<open>wrap64\<close>, the two's complement wrap-around.
  \<^item> A pointer that may be nil is an \<open>option\<close>; a Go map is a partial function.
  \<^item> An index out of range is a run-time panic in Go; a function that indexes a slice
    returns \<open>panic + 'a\<close>.
  \<^item> Record fields keep the source's names; where two structs share a field name the
    later record prefixes it (\<open>sig_\<close>, \<open>pos_\<close>, \<open>snap_\<close>, \<open>pt_\<close>, \<open>st_\<close>,
    \<open>w_\<close>, \<open>b_\<close>, \<open>x_\<close>).
  \<^item> The \<open>time.Time\<close> twins of the nanosecond fields (\<open>DetectedAt\<close>, \<open>EntryTime\<close>,
    \<open>ExitTime\<close>) are functions of those fields and are not stored.
\<close>

type_synonym float64 = real
type_synonym int64 = int

definition wrap64 :: "int \<Rightarrow> int64" where
  "wrap64 x = (x + 9223372036854775808) mod 18446744073709551616 - 9223372036854775808"

definition in64 :: "int \<Rightarrow> bool" where
  "in64 x \<longleftrightarrow> - 9223372036854775808 \<le> x \<and> x < 9223372036854775808"

datatype panic = IndexOutOfRange | MakeSliceOutOfRange | SliceBoundsOutOfRange | NegativeShift

section \<open>internal/core/model\<close>

definition ExchangeOKX :: string where "ExchangeOKX = ''okx''"
definition ExchangeBinance :: string where "ExchangeBinance = ''binance''"
definition ExchangeBittap :: string where "ExchangeBittap = ''bittap''"

type_synonym Side = string
definition SideLong :: Side where "SideLong = ''long''"
definition SideShort :: Side where "SideShort = ''short''"

type_synonym ExitReason = string
definition ExitTP :: ExitReason where "ExitTP = ''tp''"
definition ExitSL :: ExitReason where "ExitSL = ''sl''"
definition ExitTimeout :: ExitReason where "ExitTimeout = ''timeout''"

record Level =
  Price :: float64
  Qty :: float64

record BookEvent =
  Exchange :: string
  SymbolCanon :: string
  BestBidPx :: float64
  BestBidQty :: float64
  BestAskPx :: float64
  BestAskQty :: float64
  Levels :: "Level list"
  ArrivedAtUnixNs :: int64
  ExchTsUnixMs :: int64
  Seq :: int64

definition IsValid :: "BookEvent \<Rightarrow> bool" where
  "IsValid b \<longleftrightarrow> BestBidPx b > 0 \<and> BestAskPx b > 0 \<and> BestBidPx b < BestAskPx b"

definition MidPrice :: "BookEvent \<Rightarrow> float64" where
  "MidPrice b = (BestBidPx b + BestAskPx b) / 2"

text \<open>The loop of \<open>Top5DepthUSD\<close> stops at index 5.\<close>

definition Top5DepthUSD :: "BookEvent \<Rightarrow> float64" where
  "Top5DepthUSD b = foldl (\<lambda>total level. total + Price level * Qty level) 0 (take 5 (Levels b))"

record Signal =
  sig_ID :: string
  sig_Leader :: string
  sig_SymbolCanon :: string
  sig_Side :: Side
  SpreadBps :: float64
  LeaderBook :: "BookEvent option"
  FollowerBook :: "BookEvent option"
  DetectedAtNs :: int64
  RejectedByEV :: bool
  FilterReason :: string

record Position =
  pos_ID :: string
  pos_Leader :: string
  pos_SymbolCanon :: string
  pos_Side :: Side
  EntryPx :: float64
  EntrySpread :: float64
  EntryTimeNs :: int64
  ExitPx :: float64
  ExitTimeNs :: int64
  ExitReason :: ExitReason
  GrossPnLBps :: float64
  FeeBps :: float64
  NetPnLBps :: float64
  Closed :: bool

definition Direction :: "Position \<Rightarrow> float64" where
  "Direction p = (if pos_Side p = SideLong then 1 else - 1)"

record EVSnapshot =
  snap_WinRate :: float64
  snap_AvgProfit :: float64
  snap_AvgLoss :: float64
  snap_EV :: float64
  snap_PRequired :: float64

record PaperTrade =
  pt_Leader :: string
  pt_SymbolCanon :: string
  pt_Side :: string
  TEntryNs :: int64
  TExitNs :: int64
  pt_EntryPx :: float64
  pt_ExitPx :: float64
  pt_GrossPnLBps :: float64
  pt_FeeBps :: float64
  pt_NetPnLBps :: float64
  pt_ExitReason :: string
  pt_EVSnapshot :: "EVSnapshot option"

definition ToPaperTrade :: "Position \<Rightarrow> EVSnapshot option \<Rightarrow> PaperTrade" where
  "ToPaperTrade p evSnapshot =
     \<lparr> pt_Leader = pos_Leader p, pt_SymbolCanon = pos_SymbolCanon p, pt_Side = pos_Side p,
       TEntryNs = EntryTimeNs p, TExitNs = ExitTimeNs p,
       pt_EntryPx = EntryPx p, pt_ExitPx = ExitPx p,
       pt_GrossPnLBps = GrossPnLBps p, pt_FeeBps = FeeBps p, pt_NetPnLBps = NetPnLBps p,
       pt_ExitReason = ExitReason p, pt_EVSnapshot = evSnapshot \<rparr>"

section \<open>internal/stats/ev: the rolling EV calculator\<close>

record tradeSample =
  win :: bool
  grossPnLBps :: float64
  feeBps :: float64
  netPnLBps :: float64
  symbolCanon :: string
  exitReason :: ExitReason

definition zeroSample :: tradeSample where
  "zeroSample = \<lparr> win = False, grossPnLBps = 0, feeBps = 0, netPnLBps = 0,
                   symbolCanon = [], exitReason = [] \<rparr>"

record EVStats =
  Count :: int64
  WinCount :: int64
  LossCount :: int64
  WinRate :: float64
  AvgProfit :: float64
  AvgLoss :: float64
  st_FeeBps :: float64
  EV :: float64
  PRequired :: float64

record Calculator =
  windowSize :: int
  buf :: "tradeSample list"
  pos :: int
  full :: bool
  count :: int64
  winCount :: int64
  lossCount :: int64
  sumWinR :: float64
  sumLossL :: float64
  sumFee :: float64

definition NewCalculator :: "int \<Rightarrow> Calculator" where
  "NewCalculator ws0 =
     (let ws = (if ws0 \<le> 0 then 1000 else ws0) in
      \<lparr> windowSize = ws, buf = replicate (nat ws) zeroSample, pos = 0, full = False,
        count = 0, winCount = 0, lossCount = 0, sumWinR = 0, sumLossL = 0, sumFee = 0 \<rparr>)"

definition sampleOf :: "Position \<Rightarrow> tradeSample" where
  "sampleOf p = \<lparr> win = (NetPnLBps p > 0), grossPnLBps = GrossPnLBps p, feeBps = FeeBps p,
                  netPnLBps = NetPnLBps p, symbolCanon = pos_SymbolCanon p,
                  exitReason = ExitReason p \<rparr>"

text \<open>The block of \<open>Calculator.Add\<close> that removes the evicted sample from the running sums.\<close>

definition evict :: "Calculator \<Rightarrow> tradeSample \<Rightarrow> Calculator" where
  "evict c old =
     (let c1 = c\<lparr>count := wrap64 (count c - 1)\<rparr>;
          c2 = (if win old
                then c1\<lparr>winCount := wrap64 (winCount c1 - 1),
                        sumWinR := sumWinR c1 - grossPnLBps old\<rparr>
                else c1\<lparr>lossCount := wrap64 (lossCount c1 - 1),
                        sumLossL := sumLossL c1 - \<bar>grossPnLBps old\<bar>\<rparr>)
      in c2\<lparr>sumFee := sumFee c2 - feeBps old\<rparr>)"

text \<open>The tail of \<open>Calculator.Add\<close>: store the sample, advance the ring, add to the sums.\<close>

definition store_sample :: "Calculator \<Rightarrow> tradeSample \<Rightarrow> Calculator" where
  "store_sample c s =
     (let c1 = c\<lparr>buf := (buf c)[nat (pos c) := s], pos := wrap64 (pos c + 1)\<rparr>;
          c2 = (if pos c1 \<ge> windowSize c1 then c1\<lparr>pos := 0, full := True\<rparr> else c1);
          c3 = c2\<lparr>count := wrap64 (count c2 + 1)\<rparr>;
          c4 = (if win s
                then c3\<lparr>winCount := wrap64 (winCount c3 + 1),
                        sumWinR := sumWinR c3 + grossPnLBps s\<rparr>
                else c3\<lparr>lossCount := wrap64 (lossCount c3 + 1),
                        sumLossL := sumLossL c3 + \<bar>grossPnLBps s\<bar>\<rparr>)
      in c4\<lparr>sumFee := sumFee c4 + feeBps s\<rparr>)"

definition Calculator_Add :: "Calculator \<Rightarrow> Position option \<Rightarrow> panic + Calculator" where
  "Calculator_Add c po =
     (case po of
        None \<Rightarrow> Inr c
      | Some p \<Rightarrow>
          if \<not> Closed p then Inr c
          else if pos c < 0 \<or> pos c \<ge> int (length (buf c)) then Inl IndexOutOfRange
          else Inr (store_sample (if full c then evict c (buf c ! nat (pos c)) else c)
                                 (sampleOf p)))"

fun AddAll :: "Calculator \<Rightarrow> Position option list \<Rightarrow> panic + Calculator" where
  "AddAll c [] = Inr c"
| "AddAll c (p # ps) = (case Calculator_Add c p of Inl e \<Rightarrow> Inl e | Inr c' \<Rightarrow> AddAll c' ps)"

definition emptyStats :: EVStats where
  "emptyStats = \<lparr> Count = 0, WinCount = 0, LossCount = 0, WinRate = 0, AvgProfit = 0,
                   AvgLoss = 0, st_FeeBps = 0, EV = 0, PRequired = 0 \<rparr>"

definition Stats :: "Calculator \<Rightarrow> EVStats" where
  "Stats c =
     (let out = emptyStats\<lparr>Count := count c, WinCount := winCount c, LossCount := lossCount c\<rparr>
      in if count c \<le> 0 then out
         else
           (let p = real_of_int (winCount c) / real_of_int (count c);
                f = sumFee c / real_of_int (count c);
                R = (if winCount c > 0 then sumWinR c / real_of_int (winCount c) else 0);
                L = (if lossCount c > 0 then sumLossL c / real_of_int (lossCount c) else 0);
                den = R + L
            in out\<lparr>WinRate := p, st_FeeBps := f, AvgProfit := R, AvgLoss := L,
                    EV := p * (R - f) + (1 - p) * (- L - f),
                    PRequired := (if den > 0 then (L + f) / den else 1)\<rparr>))"

definition Snapshot :: "Calculator \<Rightarrow> EVSnapshot" where
  "Snapshot c =
     (let stats = Stats c in
      \<lparr> snap_WinRate = WinRate stats, snap_AvgProfit = AvgProfit stats,
        snap_AvgLoss = AvgLoss stats, snap_EV = EV stats, snap_PRequired = PRequired stats \<rparr>)"

definition ApplyRejection :: "Signal option \<Rightarrow> EVStats \<Rightarrow> Signal option" where
  "ApplyRejection sigo stats =
     (case sigo of
        None \<Rightarrow> None
      | Some sg \<Rightarrow>
          if Count stats > 0 \<and> EV stats < 0
          then Some (sg\<lparr>RejectedByEV := True, FilterReason := ''ev_negative''\<rparr>)
          else Some sg)"

section \<open>internal/stats/latency: the lag tracker\<close>

definition MsToNano :: "int64 \<Rightarrow> int64" where
  "MsToNano ms = wrap64 (ms * 1000000)"

record rollingWindow =
  w_size :: int
  w_buf :: "int64 list"
  w_pos :: int
  w_count :: int64
  w_full :: bool

definition newRollingWindow :: "int \<Rightarrow> panic + rollingWindow" where
  "newRollingWindow sz =
     (if sz < 0 then Inl MakeSliceOutOfRange
      else Inr \<lparr> w_size = sz, w_buf = [], w_pos = 0, w_count = 0, w_full = False \<rparr>)"

definition rw_add :: "rollingWindow \<Rightarrow> int64 \<Rightarrow> panic + rollingWindow" where
  "rw_add w0 v =
     (let w = w0\<lparr>w_count := wrap64 (w_count w0 + 1)\<rparr> in
      if w_size w \<le> 0 then Inr w
      else if \<not> w_full w then
        (let w1 = w\<lparr>w_buf := w_buf w @ [v]\<rparr> in
         if int (length (w_buf w1)) = w_size w1 then Inr (w1\<lparr>w_full := True, w_pos := 0\<rparr>)
         else Inr w1)
      else if w_pos w < 0 \<or> w_pos w \<ge> int (length (w_buf w)) then Inl IndexOutOfRange
      else
        (let w1 = w\<lparr>w_buf := (w_buf w)[nat (w_pos w) := v], w_pos := wrap64 (w_pos w + 1)\<rparr> in
         if w_pos w1 \<ge> w_size w1 then Inr (w1\<lparr>w_pos := 0\<rparr>) else Inr w1))"

record linkTracker =
  arrived :: rollingWindow
  event :: rollingWindow

record Tracker =
  okx :: linkTracker
  binance :: linkTracker

definition NewTracker :: "int \<Rightarrow> panic + Tracker" where
  "NewTracker windowSize' =
     (case newRollingWindow windowSize' of
        Inl e \<Rightarrow> Inl e
      | Inr w \<Rightarrow> Inr \<lparr> okx = \<lparr> arrived = w, event = w \<rparr>,
                        binance = \<lparr> arrived = w, event = w \<rparr> \<rparr>)"

text \<open>The body of one \<open>case\<close> of the switch on the leader's exchange.\<close>

definition link_add :: "linkTracker \<Rightarrow> int64 \<Rightarrow> int64 \<Rightarrow> panic + linkTracker" where
  "link_add lt lagArrivedNs lagEventNs =
     (case rw_add (arrived lt) lagArrivedNs of
        Inl e \<Rightarrow> Inl e
      | Inr a \<Rightarrow>
          if lagEventNs \<noteq> 0
          then (case rw_add (event lt) lagEventNs of
                  Inl e \<Rightarrow> Inl e
                | Inr ev \<Rightarrow> Inr (lt\<lparr>arrived := a, event := ev\<rparr>))
          else Inr (lt\<lparr>arrived := a\<rparr>))"

definition Tracker_Add :: "Tracker \<Rightarrow> BookEvent option \<Rightarrow> BookEvent option \<Rightarrow> panic + Tracker" where
  "Tracker_Add t leaderEv followerEv =
     (case (leaderEv, followerEv) of
        (Some l, Some f) \<Rightarrow>
          if Exchange f \<noteq> ExchangeBittap then Inr t
          else if SymbolCanon l = [] \<or> SymbolCanon f = [] \<or> SymbolCanon l \<noteq> SymbolCanon f
          then Inr t
          else
            (let lagArrivedNs = wrap64 (ArrivedAtUnixNs f - ArrivedAtUnixNs l);
                 lagEventNs = (if ExchTsUnixMs l > 0
                               then wrap64 (ArrivedAtUnixNs f - MsToNano (ExchTsUnixMs l))
                               else 0)
             in if Exchange l = ExchangeOKX
                then (case link_add (okx t) lagArrivedNs lagEventNs of
                        Inl e \<Rightarrow> Inl e | Inr lt \<Rightarrow> Inr (t\<lparr>okx := lt\<rparr>))
                else if Exchange l = ExchangeBinance
                then (case link_add (binance t) lagArrivedNs lagEventNs of
                        Inl e \<Rightarrow> Inl e | Inr lt \<Rightarrow> Inr (t\<lparr>binance := lt\<rparr>))
                else Inr t)
      | _ \<Rightarrow> Inr t)"

section \<open>internal/util/backoff\<close>

record Backoff =
  b_base :: int64
  b_max :: int64
  b_jitter :: float64
  b_attempt :: int

definition New :: "int64 \<Rightarrow> int64 \<Rightarrow> float64 \<Rightarrow> Backoff" where
  "New base mx jitter = \<lparr> b_base = base, b_max = mx, b_jitter = jitter, b_attempt = 0 \<rparr>"

text \<open>
  \<open>int64(1) << n\<close>: a negative count panics, a count of 64 or more gives 0, and a
  count of 63 gives the least \<open>int64\<close>.
\<close>

definition shl1 :: "int \<Rightarrow> panic + int64" where
  "shl1 n = (if n < 0 then Inl NegativeShift
             else if n \<ge> 64 then Inr 0
             else Inr (wrap64 (2 ^ nat n)))"

text \<open>
  The conversion \<open>time.Duration(x)\<close> of a \<open>float64\<close> truncates toward zero (for a
  value in the range of \<open>int64\<close>).
\<close>

definition trunc64 :: "real \<Rightarrow> int64" where
  "trunc64 x = (if x \<ge> 0 then \<lfloor>x\<rfloor> else \<lceil>x\<rceil>)"

text \<open>
  \<open>Next\<close> takes the value \<open>u\<close> that \<open>rand.Float64()\<close> returns on this call
  (\<open>0 \<le> u < 1\<close>) as a parameter.
\<close>

definition Next :: "Backoff \<Rightarrow> real \<Rightarrow> panic + (int64 \<times> Backoff)" where
  "Next b u =
     (case shl1 (b_attempt b) of
        Inl e \<Rightarrow> Inl e
      | Inr multiplier \<Rightarrow>
          (let delay0 = wrap64 (b_base b * multiplier);
               delay1 = (if delay0 > b_max b then b_max b else delay0);
               delay2 = (if b_jitter b > 0
                         then trunc64 (real_of_int delay1 * (1 + (u * 2 - 1) * b_jitter b))
                         else delay1)
           in Inr (delay2, b\<lparr>b_attempt := wrap64 (b_attempt b + 1)\<rparr>)))"

definition Reset :: "Backoff \<Rightarrow> Backoff" where
  "Reset b = b\<lparr>b_attempt := 0\<rparr>"

text \<open>Successive calls of \<open>Next\<close>, one random draw per call; the delays in order.\<close>

fun NextAll :: "Backoff \<Rightarrow> real list \<Rightarrow> panic + (int64 list \<times> Backoff)" where
  "NextAll b [] = Inr ([], b)"
| "NextAll b (u # us) =
     (case Next b u of
        Inl e \<Rightarrow> Inl e
      | Inr (d, b') \<Rightarrow>
          (case NextAll b' us of Inl e \<Rightarrow> Inl e | Inr (ds, b'') \<Rightarrow> Inr (d # ds, b'')))"

section \<open>Formatting of identifiers\<close>

text \<open>The verb \<open>%d\<close> of \<open>fmt.Sprintf\<close> on an integer.\<close>

fun digits :: "nat \<Rightarrow> string" where
  "digits n = (if n < 10 then [char_of (48 + n)]
               else digits (n div 10) @ [char_of (48 + n mod 10)])"

declare digits.simps [simp del]

definition show_int :: "int \<Rightarrow> string" where
  "show_int i = (if i < 0 then CHR ''-'' # digits (nat (- i)) else digits (nat i))"

section \<open>internal/config: the parts the core reads\<close>

record StrategyConfig =
  ThetaEntryBps :: float64
  PersistMs :: int
  MinDepthUSD :: float64
  VolFilterEnabled :: bool
  VolThreshold :: float64
  CooldownMs :: int

record PaperConfig =
  TPRatio :: float64
  SLRatio :: float64
  MaxHoldMs :: int
  SlippageBps :: float64

record FeeDetail =
  TakerRate :: float64
  MakerRate :: float64
  RebateRate :: float64

definition EffectiveTakerFee :: "FeeDetail \<Rightarrow> float64" where
  "EffectiveTakerFee f = TakerRate f * (1 - RebateRate f)"

section \<open>internal/core/signal: the signal engine\<close>

record candidateState =
  active :: bool
  startNs :: int64
  signaled :: bool

record volState =
  lastSampleNs :: int64
  samples :: "float64 list"
  maxSamples :: int

record symbolState =
  longCand :: candidateState
  shortCand :: candidateState
  vol :: volState
  cooldownUntilNs :: int64

record Engine =
  leader :: string
  cfg :: StrategyConfig
  persistNs :: int64
  states :: "string \<rightharpoonup> symbolState"

definition zeroCand :: candidateState where
  "zeroCand = \<lparr> active = False, startNs = 0, signaled = False \<rparr>"

definition NewEngine :: "string \<Rightarrow> StrategyConfig \<Rightarrow> Engine" where
  "NewEngine ld c = \<lparr> leader = ld, cfg = c, persistNs = wrap64 (PersistMs c * 1000000),
                       states = Map.empty \<rparr>"

definition newSymbolState :: symbolState where
  "newSymbolState = \<lparr> longCand = zeroCand, shortCand = zeroCand,
                       vol = \<lparr> lastSampleNs = 0, samples = [], maxSamples = 60 \<rparr>,
                       cooldownUntilNs = 0 \<rparr>"

definition getState :: "Engine \<Rightarrow> string \<Rightarrow> symbolState \<times> Engine" where
  "getState e symb =
     (case states e symb of
        Some st \<Rightarrow> (st, e)
      | None \<Rightarrow> (newSymbolState, e\<lparr>states := (states e)(symb \<mapsto> newSymbolState)\<rparr>))"

text \<open>
  The engine holds pointers to its symbol states, so a write through \<open>st\<close> in the source
  is a write into the map; \<open>putState\<close> is that write.
\<close>

definition putState :: "Engine \<Rightarrow> string \<Rightarrow> symbolState \<Rightarrow> Engine" where
  "putState e symb st = e\<lparr>states := (states e)(symb \<mapsto> st)\<rparr>"

definition NotifyStopLoss :: "Engine \<Rightarrow> string \<Rightarrow> int64 \<Rightarrow> Engine" where
  "NotifyStopLoss e symb nowNs =
     (let (st, e1) = getState e symb in
      putState e1 symb
        (st\<lparr>cooldownUntilNs := wrap64 (nowNs + wrap64 (CooldownMs (cfg e) * 1000000))\<rparr>))"

definition resetCandidates :: "symbolState \<Rightarrow> symbolState" where
  "resetCandidates st = st\<lparr>longCand := zeroCand, shortCand := zeroCand\<rparr>"

definition mkSignal :: "Engine \<Rightarrow> int64 \<Rightarrow> BookEvent \<Rightarrow> BookEvent \<Rightarrow> Side \<Rightarrow> float64 \<Rightarrow> Signal" where
  "mkSignal e nowNs lb fb side spreadBps =
     \<lparr> sig_ID = leader e @ ''-'' @ SymbolCanon lb @ ''-'' @ side @ ''-'' @ show_int nowNs,
       sig_Leader = leader e, sig_SymbolCanon = SymbolCanon lb, sig_Side = side,
       SpreadBps = spreadBps, LeaderBook = Some lb, FollowerBook = Some fb,
       DetectedAtNs = nowNs, RejectedByEV = False, FilterReason = [] \<rparr>"

definition tryFire ::
  "Engine \<Rightarrow> int64 \<Rightarrow> BookEvent \<Rightarrow> BookEvent \<Rightarrow> Side \<Rightarrow> float64 \<Rightarrow> candidateState
     \<Rightarrow> Signal option \<times> candidateState" where
  "tryFire e nowNs lb fb side spreadBps cand =
     (if \<not> active cand then
        (let cand1 = cand\<lparr>active := True, startNs := nowNs, signaled := False\<rparr> in
         if persistNs e = 0
         then (Some (mkSignal e nowNs lb fb side spreadBps), cand1\<lparr>signaled := True\<rparr>)
         else (None, cand1))
      else if signaled cand then (None, cand)
      else if wrap64 (nowNs - startNs cand) < persistNs e then (None, cand)
      else (Some (mkSignal e nowNs lb fb side spreadBps), cand\<lparr>signaled := True\<rparr>))"

definition calcLongSpreadBps :: "BookEvent \<Rightarrow> BookEvent \<Rightarrow> float64 \<times> bool" where
  "calcLongSpreadBps lb fb =
     (if BestBidPx lb \<le> 0 \<or> BestAskPx fb \<le> 0 then (0, False)
      else ((BestBidPx lb - BestAskPx fb) / BestAskPx fb * 10000, True))"

definition calcShortSpreadBps :: "BookEvent \<Rightarrow> BookEvent \<Rightarrow> float64 \<times> bool" where
  "calcShortSpreadBps lb fb =
     (if BestBidPx fb \<le> 0 \<or> BestAskPx lb \<le> 0 then (0, False)
      else ((BestBidPx fb - BestAskPx lb) / BestAskPx lb * 10000, True))"

definition updateVol :: "symbolState \<Rightarrow> int64 \<Rightarrow> float64 \<Rightarrow> panic + symbolState" where
  "updateVol st nowNs midPx =
     (if midPx \<le> 0 then Inr st
      else if lastSampleNs (vol st) > 0 \<and> wrap64 (nowNs - lastSampleNs (vol st)) < 1000000000
      then Inr st
      else
        (let v1 = (vol st)\<lparr>lastSampleNs := nowNs, samples := samples (vol st) @ [midPx]\<rparr>;
             n = int (length (samples v1))
         in if n > maxSamples v1
            then (let lo = wrap64 (n - maxSamples v1) in
                  if lo < 0 \<or> lo > n then Inl SliceBoundsOutOfRange
                  else Inr (st\<lparr>vol := v1\<lparr>samples := drop (nat lo) (samples v1)\<rparr>\<rparr>))
            else Inr (st\<lparr>vol := v1\<rparr>)))"

text \<open>The first loop of \<open>realizedVol\<close>: the log-returns of consecutive positive samples.\<close>

fun logReturns :: "float64 list \<Rightarrow> float64 list" where
  "logReturns (p0 # p1 # ps) =
     (if p0 \<le> 0 \<or> p1 \<le> 0 then logReturns (p1 # ps)
      else ln (p1 / p0) # logReturns (p1 # ps))"
| "logReturns ps = []"

definition realizedVol :: "symbolState \<Rightarrow> float64" where
  "realizedVol st =
     (if length (samples (vol st)) < 2 then 0
      else
        (let returns = logReturns (samples (vol st)) in
         if length returns < 2 then 0
         else
           (let mean = sum_list returns / real (length returns);
                ss = sum_list (map (\<lambda>r. (r - mean) * (r - mean)) returns)
            in sqrt (ss / real (length returns - 1)))))"

text \<open>The two spread blocks of \<open>Evaluate\<close>, LONG first; a LONG signal returns at once.\<close>

definition evalSpreads ::
  "Engine \<Rightarrow> int64 \<Rightarrow> BookEvent \<Rightarrow> BookEvent \<Rightarrow> symbolState \<Rightarrow> Signal option \<times> symbolState" where
  "evalSpreads e nowNs lb fb st =
     (let (longBps, longOK) = calcLongSpreadBps lb fb;
          (sigL, st1) =
             (if longOK \<and> longBps > ThetaEntryBps (cfg e)
              then (let (sg, c) = tryFire e nowNs lb fb SideLong longBps (longCand st)
                    in (sg, st\<lparr>longCand := c\<rparr>))
              else (None, st\<lparr>longCand := zeroCand\<rparr>))
      in if sigL \<noteq> None then (sigL, st1)
         else
           (let (shortBps, shortOK) = calcShortSpreadBps lb fb in
            if shortOK \<and> shortBps > ThetaEntryBps (cfg e)
            then (let (sg, c) = tryFire e nowNs lb fb SideShort shortBps (shortCand st1)
                  in (sg, st1\<lparr>shortCand := c\<rparr>))
            else (None, st1\<lparr>shortCand := zeroCand\<rparr>)))"

definition Engine_Evaluate ::
  "Engine \<Rightarrow> int64 \<Rightarrow> BookEvent option \<Rightarrow> BookEvent option \<Rightarrow> panic + (Signal option \<times> Engine)" where
  "Engine_Evaluate e nowNs leaderBook followerBook =
     (case (leaderBook, followerBook) of
        (Some lb, Some fb) \<Rightarrow>
          if Exchange lb \<noteq> leader e then Inr (None, e)
          else if Exchange fb \<noteq> ExchangeBittap then Inr (None, e)
          else if SymbolCanon lb = [] \<or> SymbolCanon fb = [] \<or> SymbolCanon lb \<noteq> SymbolCanon fb
          then Inr (None, e)
          else if \<not> IsValid lb \<or> \<not> IsValid fb then Inr (None, e)
          else
            (let (st, e1) = getState e (SymbolCanon lb) in
             if cooldownUntilNs st > 0 \<and> nowNs < cooldownUntilNs st then Inr (None, e1)
             else if MinDepthUSD (cfg e) > 0 \<and> Top5DepthUSD lb < MinDepthUSD (cfg e)
             then Inr (None, putState e1 (SymbolCanon lb) (resetCandidates st))
             else
               (case (if VolFilterEnabled (cfg e) then updateVol st nowNs (MidPrice lb)
                      else Inr st) of
                  Inl p \<Rightarrow> Inl p
                | Inr st2 \<Rightarrow>
                    if VolFilterEnabled (cfg e) \<and> realizedVol st2 > VolThreshold (cfg e)
                    then Inr (None, putState e1 (SymbolCanon lb) st2)
                    else (let (sg, st3) = evalSpreads e nowNs lb fb st2
                          in Inr (sg, putState e1 (SymbolCanon lb) st3))))
      | _ \<Rightarrow> Inr (None, e))"

section \<open>internal/core/paper: the paper executor\<close>

datatype error =
    ErrMissingBooks
  | ErrFollowerNotBittap
  | ErrNilFollowerBook
  | ErrBestAskPx
  | ErrBestBidPx
  | ErrUnknownSide Side

record Executor =
  x_leader :: string
  x_cfg :: PaperConfig
  x_fee :: FeeDetail
  positions :: "string \<rightharpoonup> Position"

definition NewExecutor :: "string \<Rightarrow> PaperConfig \<Rightarrow> FeeDetail \<Rightarrow> Executor" where
  "NewExecutor ld c f = \<lparr> x_leader = ld, x_cfg = c, x_fee = f, positions = Map.empty \<rparr>"

definition entryPx :: "Executor \<Rightarrow> Side \<Rightarrow> BookEvent option \<Rightarrow> error + float64" where
  "entryPx e side followerBook =
     (case followerBook of
        None \<Rightarrow> Inl ErrNilFollowerBook
      | Some fb \<Rightarrow>
          (let slip = SlippageBps (x_cfg e) / 10000 in
           if side = SideLong
           then (if BestAskPx fb \<le> 0 then Inl ErrBestAskPx else Inr (BestAskPx fb * (1 + slip)))
           else if side = SideShort
           then (if BestBidPx fb \<le> 0 then Inl ErrBestBidPx else Inr (BestBidPx fb * (1 - slip)))
           else Inl (ErrUnknownSide side)))"

definition exitPx :: "Executor \<Rightarrow> Side \<Rightarrow> BookEvent option \<Rightarrow> error + float64" where
  "exitPx e side followerBook =
     (case followerBook of
        None \<Rightarrow> Inl ErrNilFollowerBook
      | Some fb \<Rightarrow>
          (let slip = SlippageBps (x_cfg e) / 10000 in
           if side = SideLong
           then (if BestBidPx fb \<le> 0 then Inl ErrBestBidPx else Inr (BestBidPx fb * (1 - slip)))
           else if side = SideShort
           then (if BestAskPx fb \<le> 0 then Inl ErrBestAskPx else Inr (BestAskPx fb * (1 + slip)))
           else Inl (ErrUnknownSide side)))"

definition currentSpreadBps :: "Side \<Rightarrow> BookEvent \<Rightarrow> BookEvent \<Rightarrow> float64 \<times> bool" where
  "currentSpreadBps side lb fb =
     (if side = SideLong
      then (if BestAskPx fb \<le> 0 \<or> BestBidPx lb \<le> 0 then (0, False)
            else ((BestBidPx lb - BestAskPx fb) / BestAskPx fb * 10000, True))
      else if side = SideShort
      then (if BestAskPx lb \<le> 0 \<or> BestBidPx fb \<le> 0 then (0, False)
            else ((BestBidPx fb - BestAskPx lb) / BestAskPx lb * 10000, True))
      else (0, False))"

definition TryOpen ::
  "Executor \<Rightarrow> Signal option \<Rightarrow> (Position option \<times> bool \<times> error option) \<times> Executor" where
  "TryOpen e sigo =
     (case sigo of
        None \<Rightarrow> ((None, False, None), e)
      | Some sg \<Rightarrow>
          if sig_Leader sg \<noteq> x_leader e \<or> sig_SymbolCanon sg = [] then ((None, False, None), e)
          else
            (case (FollowerBook sg, LeaderBook sg) of
               (Some fb, Some lb) \<Rightarrow>
                 if Exchange fb \<noteq> ExchangeBittap then ((None, False, Some ErrFollowerNotBittap), e)
                 else if (case positions e (sig_SymbolCanon sg) of
                            Some p \<Rightarrow> \<not> Closed p | None \<Rightarrow> False)
                 then ((None, False, None), e)
                 else
                   (case entryPx e (sig_Side sg) (FollowerBook sg) of
                      Inl err \<Rightarrow> ((None, False, Some err), e)
                    | Inr px \<Rightarrow>
                        (let p = \<lparr> pos_ID = ''paper-'' @ x_leader e @ ''-'' @ sig_SymbolCanon sg
                                             @ ''-'' @ show_int (DetectedAtNs sg),
                                    pos_Leader = x_leader e,
                                    pos_SymbolCanon = sig_SymbolCanon sg,
                                    pos_Side = sig_Side sg,
                                    EntryPx = px,
                                    EntrySpread = SpreadBps sg,
                                    EntryTimeNs = DetectedAtNs sg,
                                    ExitPx = 0, ExitTimeNs = 0, ExitReason = [],
                                    GrossPnLBps = 0,
                                    FeeBps = 2 * EffectiveTakerFee (x_fee e) * 10000,
                                    NetPnLBps = 0,
                                    Closed = False \<rparr>
                         in ((Some p, True, None),
                             e\<lparr>positions := (positions e)(sig_SymbolCanon sg \<mapsto> p)\<rparr>)))
             | _ \<Rightarrow> ((None, False, Some ErrMissingBooks), e)))"

text \<open>
  \<open>close\<close> writes through the pointer that the executor keeps under the key \<open>key\<close>
  (the symbol \<open>Evaluate\<close> looked the position up with), so the map entry changes with it.
\<close>

definition close ::
  "Executor \<Rightarrow> string \<Rightarrow> int64 \<Rightarrow> Position \<Rightarrow> BookEvent option \<Rightarrow> ExitReason
     \<Rightarrow> Position option \<times> Executor" where
  "close e key nowNs p followerBook reason =
     (case exitPx e (pos_Side p) followerBook of
        Inl err \<Rightarrow> (None, e)
      | Inr px \<Rightarrow>
          (let p1 = p\<lparr>ExitPx := px, ExitTimeNs := nowNs, ExitReason := reason, Closed := True\<rparr>;
               p2 = p1\<lparr>GrossPnLBps := (ExitPx p1 - EntryPx p1) / EntryPx p1 * 10000 * Direction p1\<rparr>;
               p3 = p2\<lparr>NetPnLBps := GrossPnLBps p2 - FeeBps p2\<rparr>
           in (Some p3, e\<lparr>positions := (positions e)(key \<mapsto> p3)\<rparr>)))"

definition Executor_Evaluate ::
  "Executor \<Rightarrow> int64 \<Rightarrow> BookEvent option \<Rightarrow> BookEvent option \<Rightarrow> Position option \<times> Executor" where
  "Executor_Evaluate e nowNs leaderBook followerBook =
     (case (leaderBook, followerBook) of
        (Some lb, Some fb) \<Rightarrow>
          if Exchange lb \<noteq> x_leader e \<or> Exchange fb \<noteq> ExchangeBittap then (None, e)
          else if SymbolCanon lb = [] \<or> SymbolCanon fb = [] \<or> SymbolCanon lb \<noteq> SymbolCanon fb
          then (None, e)
          else
            (case positions e (SymbolCanon lb) of
               None \<Rightarrow> (None, e)
             | Some p \<Rightarrow>
                 if Closed p then (None, e)
                 else
                   (let (curSpread, ok) = currentSpreadBps (pos_Side p) lb fb in
                    if \<not> ok then (None, e)
                    else
                      (let entryAbs = \<bar>EntrySpread p\<bar>; curAbs = \<bar>curSpread\<bar> in
                       if TPRatio (x_cfg e) > 0 \<and> entryAbs > 0
                          \<and> curAbs \<le> (1 - TPRatio (x_cfg e)) * entryAbs
                       then close e (SymbolCanon lb) nowNs p followerBook ExitTP
                       else if SLRatio (x_cfg e) > 0 \<and> entryAbs > 0
                          \<and> curAbs \<ge> (1 + SLRatio (x_cfg e)) * entryAbs
                       then close e (SymbolCanon lb) nowNs p followerBook ExitSL
                       else if MaxHoldMs (x_cfg e) > 0
                          \<and> wrap64 (nowNs - EntryTimeNs p) > wrap64 (MaxHoldMs (x_cfg e) * 1000000)
                       then close e (SymbolCanon lb) nowNs p followerBook ExitTimeout
                       else (None, e))))
      | _ \<Rightarrow> (None, e))"

section \<open>internal/core/store: the book store\<close>

record Store =
  books :: "string \<rightharpoonup> (string \<rightharpoonup> BookEvent)"

definition Store_New :: Store where
  "Store_New = \<lparr> books = Map.empty \<rparr>"

definition Update :: "Store \<Rightarrow> BookEvent option \<Rightarrow> Store" where
  "Update s evo =
     (case evo of
        None \<Rightarrow> s
      | Some ev \<Rightarrow>
          if Exchange ev = [] \<or> SymbolCanon ev = [] then s
          else
            (let exBooks = (case books s (Exchange ev) of Some m \<Rightarrow> m | None \<Rightarrow> Map.empty)
             in s\<lparr>books := (books s)(Exchange ev \<mapsto> exBooks(SymbolCanon ev \<mapsto> ev))\<rparr>))"

definition Get :: "Store \<Rightarrow> string \<Rightarrow> string \<Rightarrow> BookEvent option" where
  "Get s exchange symbolCanon' =
     (case books s exchange of None \<Rightarrow> None | Some exBooks \<Rightarrow> exBooks symbolCanon')"

definition GetPair :: "Store \<Rightarrow> string \<Rightarrow> string \<Rightarrow> BookEvent option \<times> BookEvent option" where
  "GetPair s ld symbolCanon' = (Get s ld symbolCanon', Get s ExchangeBittap symbolCanon')"

section \<open>cmd/validator: the aggregator\<close>

text \<open>
  A JSONL writer is modelled by the list of records handed to \<open>Write\<close>, in order;
  \<open>None\<close> is the nil writer of a disabled output. The logger is the list of the
  warnings of \<open>applyEVAndMaybeOpen\<close>: the error, the leader and the symbol.
\<close>

type_synonym logEntry = "error \<times> string \<times> string"

definition applyEVAndMaybeOpen ::
  "Signal option \<Rightarrow> Calculator \<Rightarrow> Executor \<Rightarrow> Signal list option \<Rightarrow> PaperTrade list option
     \<Rightarrow> logEntry list \<Rightarrow> Executor \<times> Signal list option \<times> logEntry list" where
  "applyEVAndMaybeOpen sigo evCalc exec signalsWriter paperWriter logger =
     (case ApplyRejection sigo (Stats evCalc) of
        None \<Rightarrow> (exec, signalsWriter, logger)
      | Some sg \<Rightarrow>
          (let sw = map_option (\<lambda>w. w @ [sg]) signalsWriter in
           if RejectedByEV sg then (exec, sw, logger)
           else
             (case TryOpen exec (Some sg) of
                ((p, opened, Some err), exec') \<Rightarrow>
                  (exec', sw, logger @ [(err, sig_Leader sg, sig_SymbolCanon sg)])
              | ((p, opened, None), exec') \<Rightarrow> (exec', sw, logger))))"

text \<open>
  \<open>handleBookEvent\<close> runs the same block once for the OKX link and once for the
  Binance link; \<open>evalLink\<close> is that block, on the engine, executor and EV calculator
  of one link.
\<close>

type_synonym linkState =
  "Engine \<times> Executor \<times> Calculator \<times> Signal list option \<times> PaperTrade list option \<times> logEntry list"

definition evalLink ::
  "int64 \<Rightarrow> BookEvent option \<Rightarrow> BookEvent option \<Rightarrow> linkState \<Rightarrow> panic + linkState" where
  "evalLink nowNs leaderBook followerBook ls =
     (case ls of (eng, exec, evc, sw, pw, lg) \<Rightarrow>
        if leaderBook \<noteq> None \<and> followerBook \<noteq> None then
          (case Engine_Evaluate eng nowNs leaderBook followerBook of
             Inl p \<Rightarrow> Inl p
           | Inr (sigo, eng1) \<Rightarrow>
               (let (exec1, sw1, lg1) =
                      (if sigo \<noteq> None then applyEVAndMaybeOpen sigo evc exec sw pw lg
                       else (exec, sw, lg))
                in case Executor_Evaluate exec1 nowNs leaderBook followerBook of
                     (None, exec2) \<Rightarrow> Inr (eng1, exec2, evc, sw1, pw, lg1)
                   | (Some closedPos, exec2) \<Rightarrow>
                       (case Calculator_Add evc (Some closedPos) of
                          Inl p \<Rightarrow> Inl p
                        | Inr evc1 \<Rightarrow>
                            (let eng2 = (if ExitReason closedPos = ExitSL
                                         then NotifyStopLoss eng1 (pos_SymbolCanon closedPos) nowNs
                                         else eng1);
                                 pw1 = map_option
                                         (\<lambda>w. w @ [ToPaperTrade closedPos (Some (Snapshot evc1))]) pw
                             in Inr (eng2, exec2, evc1, sw1, pw1, lg1)))))
        else Inr ls)"

record AggState =
  bookStore :: Store
  latTracker :: Tracker
  okxEngine :: Engine
  binanceEngine :: Engine
  okxExec :: Executor
  binanceExec :: Executor
  okxEV :: Calculator
  binanceEV :: Calculator
  signalsWriter :: "Signal list option"
  paperWriter :: "PaperTrade list option"
  logger :: "logEntry list"
  counts :: "string \<times> string \<rightharpoonup> int64"

text \<open>The lag block of \<open>handleBookEvent\<close>, entered when the event is the follower's.\<close>

definition lagStep :: "Store \<Rightarrow> Tracker \<Rightarrow> BookEvent \<Rightarrow> panic + Tracker" where
  "lagStep s t ev =
     (let okxBook = fst (GetPair s ExchangeOKX (SymbolCanon ev)) in
      case (if okxBook \<noteq> None then Tracker_Add t okxBook (Some ev) else Inr t) of
        Inl p \<Rightarrow> Inl p
      | Inr t1 \<Rightarrow>
          (let binanceBook = fst (GetPair s ExchangeBinance (SymbolCanon ev)) in
           if binanceBook \<noteq> None then Tracker_Add t1 binanceBook (Some ev) else Inr t1))"

definition handleBookEvent :: "AggState \<Rightarrow> BookEvent option \<Rightarrow> panic + AggState" where
  "handleBookEvent st evo =
     (case evo of
        None \<Rightarrow> Inr st
      | Some ev \<Rightarrow>
          if Exchange ev = [] \<or> SymbolCanon ev = [] then Inr st
          else
            (let k = (Exchange ev, SymbolCanon ev);
                 st1 = st\<lparr>counts := (counts st)(k \<mapsto>
                              wrap64 ((case counts st k of None \<Rightarrow> 0 | Some n \<Rightarrow> n) + 1)),
                          bookStore := Update (bookStore st) (Some ev)\<rparr>
             in case (if Exchange ev = ExchangeBittap
                      then lagStep (bookStore st1) (latTracker st1) ev
                      else Inr (latTracker st1)) of
                  Inl p \<Rightarrow> Inl p
                | Inr lt \<Rightarrow>
                    (let (okxBook, bittapBook) =
                           GetPair (bookStore st1) ExchangeOKX (SymbolCanon ev)
                     in case evalLink (ArrivedAtUnixNs ev) okxBook bittapBook
                               (okxEngine st1, okxExec st1, okxEV st1,
                                signalsWriter st1, paperWriter st1, logger st1) of
                          Inl p \<Rightarrow> Inl p
                        | Inr (eng, exec, evc, sw, pw, lg) \<Rightarrow>
                            (let (binBook, bittapBook2) =
                                   GetPair (bookStore st1) ExchangeBinance (SymbolCanon ev)
                             in case evalLink (ArrivedAtUnixNs ev) binBook bittapBook2
                                       (binanceEngine st1, binanceExec st1, binanceEV st1,
                                        sw, pw, lg) of
                                  Inl p \<Rightarrow> Inl p
                                | Inr (eng', exec', evc', sw', pw', lg') \<Rightarrow>
                                    Inr (st1\<lparr>latTracker := lt,
                                             okxEngine := eng, okxExec := exec, okxEV := evc,
                                             binanceEngine := eng', binanceExec := exec',
                                             binanceEV := evc',
                                             signalsWriter := sw', paperWriter := pw',
                                             logger := lg'\<rparr>)))))"

text \<open>The aggregator loop on the events it receives, in the order it receives them.\<close>

fun runEvents :: "AggState \<Rightarrow> BookEvent option list \<Rightarrow> panic + AggState" where
  "runEvents st [] = Inr st"
| "runEvents st (ev # evs) =
     (case handleBookEvent st ev of Inl p \<Rightarrow> Inl p | Inr st' \<Rightarrow> runEvents st' evs)"

section \<open>Invariants and example data used in the proofs\<close>

text \<open>The samples that are in the window: all of the ring once it is full, its first
  \<open>pos\<close> cells before.\<close>

definition live :: "Calculator \<Rightarrow> tradeSample list" where
  "live c = (if full c then buf c else take (nat (pos c)) (buf c))"

definition calc_inv :: "Calculator \<Rightarrow> bool" where
  "calc_inv c \<longleftrightarrow>
     0 < windowSize c \<and> in64 (windowSize c) \<and> int (length (buf c)) = windowSize c
     \<and> 0 \<le> pos c \<and> pos c < windowSize c
     \<and> count c = int (length (live c))
     \<and> winCount c = int (length (filter win (live c)))
     \<and> lossCount c = int (length (filter (\<lambda>s. \<not> win s) (live c)))"

definition closedTrade :: "float64 \<Rightarrow> float64 \<Rightarrow> float64 \<Rightarrow> Position" where
  "closedTrade gross fee net =
     \<lparr> pos_ID = [], pos_Leader = ExchangeOKX, pos_SymbolCanon = ''BTCUSDT'', pos_Side = SideLong,
       EntryPx = 100, EntrySpread = 10, EntryTimeNs = 0, ExitPx = 101, ExitTimeNs = 1,
       ExitReason = ExitTP, GrossPnLBps = gross, FeeBps = fee, NetPnLBps = net,
       Closed = True \<rparr>"

definition bookOf :: "string \<Rightarrow> string \<Rightarrow> float64 \<Rightarrow> float64 \<Rightarrow> int64 \<Rightarrow> int64 \<Rightarrow> BookEvent" where
  "bookOf ex symb bid ask arrivedNs exchMs =
     \<lparr> Exchange = ex, SymbolCanon = symb, BestBidPx = bid, BestBidQty = 10,
       BestAskPx = ask, BestAskQty = 10, Levels = [\<lparr> Price = bid, Qty = 10 \<rparr>],
       ArrivedAtUnixNs = arrivedNs, ExchTsUnixMs = exchMs, Seq = 0 \<rparr>"

text \<open>The side of the signal an evaluation returned, if it returned one.\<close>

definition fired :: "panic + (Signal option \<times> Engine) \<Rightarrow> Side option" where
  "fired r = (case r of Inr (Some sg, e) \<Rightarrow> Some (sig_Side sg) | _ \<Rightarrow> None)"

text \<open>The engine after an evaluation (the engine \<open>d\<close> if the evaluation panicked).\<close>

definition engine_of :: "panic + (Signal option \<times> Engine) \<Rightarrow> Engine \<Rightarrow> Engine" where
  "engine_of r d = (case r of Inr (sg, e) \<Rightarrow> e | Inl p \<Rightarrow> d)"

text \<open>The components as \<open>main\<close> builds them, with the signal and paper-trade outputs
  enabled.\<close>

definition initState :: "StrategyConfig \<Rightarrow> PaperConfig \<Rightarrow> FeeDetail \<Rightarrow> panic + AggState" where
  "initState strategy paper feeDetail =
     (case NewTracker 10000 of
        Inl p \<Rightarrow> Inl p
      | Inr t \<Rightarrow>
          Inr \<lparr> bookStore = Store_New, latTracker = t,
                okxEngine = NewEngine ExchangeOKX strategy,
                binanceEngine = NewEngine ExchangeBinance strategy,
                okxExec = NewExecutor ExchangeOKX paper feeDetail,
                binanceExec = NewExecutor ExchangeBinance paper feeDetail,
                okxEV = NewCalculator 1000, binanceEV = NewCalculator 1000,
                signalsWriter = Some [], paperWriter = Some [], logger = [],
                counts = Map.empty \<rparr>)"

text \<open>
  The three exit conditions in the words of the specification, on mathematical integers
  and with \<open>E\<close> the size of the entry spread and \<open>C\<close> the size of the current one.
\<close>

definition tpHolds :: "PaperConfig \<Rightarrow> real \<Rightarrow> real \<Rightarrow> bool" where
  "tpHolds c E C \<longleftrightarrow> TPRatio c > 0 \<and> C \<le> (1 - TPRatio c) * E"

definition slHolds :: "PaperConfig \<Rightarrow> real \<Rightarrow> real \<Rightarrow> bool" where
  "slHolds c E C \<longleftrightarrow> SLRatio c > 0 \<and> C \<ge> (1 + SLRatio c) * E"

definition timeoutHolds :: "PaperConfig \<Rightarrow> int \<Rightarrow> int \<Rightarrow> bool" where
  "timeoutHolds c nowNs entryNs \<longleftrightarrow> MaxHoldMs c > 0 \<and> nowNs - entryNs > MaxHoldMs c * 1000000"

text \<open>Example configuration, books and components (the values of the repository's tests).\<close>

definition exStrategy :: StrategyConfig where
  "exStrategy = \<lparr> ThetaEntryBps = 10, PersistMs = 0, MinDepthUSD = 0,
                   VolFilterEnabled = False, VolThreshold = 0, CooldownMs = 3000 \<rparr>"

definition exPaper :: PaperConfig where
  "exPaper = \<lparr> TPRatio = 1 / 2, SLRatio = 1, MaxHoldMs = 60000, SlippageBps = 0 \<rparr>"

definition exFee :: FeeDetail where
  "exFee = \<lparr> TakerRate = 0, MakerRate = 0, RebateRate = 0 \<rparr>"

definition exLeader :: BookEvent where
  "exLeader = bookOf ExchangeOKX ''BTCUSDT'' 100 (10001 / 100) 1000000000 1"

definition exFollower :: BookEvent where
  "exFollower = bookOf ExchangeBittap ''BTCUSDT'' (998 / 10) (999 / 10) 1000000000 0"

definition exPosition :: Position where
  "exPosition =
     \<lparr> pos_ID = ''paper-okx-BTCUSDT-1000000000'', pos_Leader = ExchangeOKX,
       pos_SymbolCanon = ''BTCUSDT'', pos_Side = SideLong, EntryPx = 999 / 10,
       EntrySpread = 100, EntryTimeNs = 1000000000, ExitPx = 0, ExitTimeNs = 0,
       ExitReason = [], GrossPnLBps = 0, FeeBps = 0, NetPnLBps = 0, Closed = False \<rparr>"

definition exExecutor :: Executor where
  "exExecutor = (NewExecutor ExchangeOKX exPaper exFee)
                   \<lparr>positions := [''BTCUSDT'' \<mapsto> exPosition]\<rparr>"

definition emptyWindow :: rollingWindow where
  "emptyWindow = \<lparr> w_size = 10000, w_buf = [], w_pos = 0, w_count = 0, w_full = False \<rparr>"

definition exTracker :: Tracker where
  "exTracker = \<lparr> okx = \<lparr> arrived = emptyWindow, event = emptyWindow \<rparr>,
                  binance = \<lparr> arrived = emptyWindow, event = emptyWindow \<rparr> \<rparr>"

definition exEngine :: Engine where
  "exEngine = NewEngine ExchangeOKX exStrategy"

definition exSignal :: Signal where
  "exSignal = mkSignal exEngine 1000000000 exLeader exFollower SideLong (10000 / 999)"

text \<open>The calculator after three losing trades of gross 1, 1 and -20 bps, fee 2 bps each.\<close>

definition exLosing :: Calculator where
  "exLosing =
     \<lparr> windowSize = 3,
       buf = [sampleOf (closedTrade 1 2 (- 1)), sampleOf (closedTrade 1 2 (- 1)),
              sampleOf (closedTrade (- 20) 2 (- 22))],
       pos = 0, full = True, count = 3, winCount = 0, lossCount = 3,
       sumWinR = 0, sumLossL = 22, sumFee = 6 \<rparr>"

text \<open>The volatility filter enabled with threshold 0, and a persistence of 1 ms.\<close>

definition exVolStrategy :: StrategyConfig where
  "exVolStrategy = \<lparr> ThetaEntryBps = 10, PersistMs = 1, MinDepthUSD = 0,
                      VolFilterEnabled = True, VolThreshold = 0, CooldownMs = 0 \<rparr>"

definition exVolEngine :: Engine where
  "exVolEngine = NewEngine ExchangeOKX exVolStrategy"

text \<open>An engine whose symbol state holds two samples, taken at 1 s and 2 s.\<close>

definition exVolEngine2 :: Engine where
  "exVolEngine2 = exVolEngine
     \<lparr>states := [''BTCUSDT'' \<mapsto>
         newSymbolState\<lparr>vol := \<lparr> lastSampleNs = 2000000000,
                                 samples = [20001 / 200, 22001 / 200],
                                 maxSamples = 60 \<rparr>\<rparr>]\<rparr>"

text \<open>The aggregator's state at start-up, and an event with an empty book.\<close>

definition exInit :: AggState where
  "exInit =
     \<lparr> bookStore = Store_New, latTracker = exTracker,
       okxEngine = NewEngine ExchangeOKX exStrategy,
       binanceEngine = NewEngine ExchangeBinance exStrategy,
       okxExec = NewExecutor ExchangeOKX exPaper exFee,
       binanceExec = NewExecutor ExchangeBinance exPaper exFee,
       okxEV = NewCalculator 1000, binanceEV = NewCalculator 1000,
       signalsWriter = Some [], paperWriter = Some [], logger = [],
       counts = Map.empty \<rparr>"

definition exEmptyBook :: BookEvent where
  "exEmptyBook =
     \<lparr> Exchange = ExchangeOKX, SymbolCanon = ''BTCUSDT'', BestBidPx = 0, BestBidQty = 0,
       BestAskPx = 0, BestAskQty = 0, Levels = [], ArrivedAtUnixNs = 1000000000,
       ExchTsUnixMs = 1, Seq = 7 \<rparr>"

text \<open>The delay before jitter on attempt \<open>k\<close>, on mathematical integers: \<open>min (base * 2^k) max\<close>.\<close>

definition capped :: "int \<Rightarrow> int \<Rightarrow> nat \<Rightarrow> int" where
  "capped base mx k = min (base * 2 ^ k) mx"

section \<open>Verification\<close>

subsection \<open>Machine integers and example data\<close>

lemmas ex_defs = exStrategy_def exPaper_def exFee_def exLeader_def exFollower_def exPosition_def
  exExecutor_def bookOf_def NewExecutor_def ExchangeOKX_def ExchangeBittap_def ExchangeBinance_def
  SideLong_def SideShort_def ExitTP_def ExitSL_def ExitTimeout_def

lemma wrap64_id: "in64 x \<Longrightarrow> wrap64 x = x"
  by (simp add: wrap64_def in64_def)

lemma filter_update_count:
  "i < length xs \<Longrightarrow>
   int (length (filter P (xs[i := x]))) =
   int (length (filter P xs)) - (if P (xs ! i) then 1 else 0) + (if P x then 1 else 0)"
proof (induction xs arbitrary: i)
  case Nil then show ?case by simp
next
  case (Cons a xs)
  show ?case
  proof (cases i)
    case 0 then show ?thesis by simp
  next
    case (Suc n)
    with Cons.prems have "n < length xs" by simp
    from Cons.IH [OF this] Suc show ?thesis by (auto split: if_splits)
  qed
qed

lemma filter_nth_pos: "i < length xs \<Longrightarrow> P (xs ! i) \<Longrightarrow> 0 < length (filter P xs)"
  by (metis filter_empty_conv length_greater_0_conv nth_mem)

lemma take_update_Suc: "i < length xs \<Longrightarrow> take (Suc i) (xs[i := x]) = take i xs @ [x]"
  by (simp add: take_Suc_conv_app_nth)

lemma calc_inv_New: "in64 ws \<Longrightarrow> calc_inv (NewCalculator ws)"
  by (simp add: calc_inv_def NewCalculator_def live_def in64_def Let_def)

lemma calc_inv_bounds:
  assumes "calc_inv c"
  shows "count c = winCount c + lossCount c" "0 \<le> count c" "count c \<le> windowSize c"
    "0 \<le> winCount c" "0 \<le> lossCount c" "in64 (count c)"
proof -
  have "length (live c) = length (filter win (live c)) + length (filter (\<lambda>s. \<not> win s) (live c))"
    by (rule sum_length_filter_compl [symmetric])
  then show "count c = winCount c + lossCount c" using assms by (simp add: calc_inv_def)
  show "0 \<le> count c" using assms by (simp add: calc_inv_def)
  show c: "count c \<le> windowSize c" using assms by (auto simp add: calc_inv_def live_def)
  show "0 \<le> winCount c" "0 \<le> lossCount c" using assms by (simp_all add: calc_inv_def)
  show "in64 (count c)" using assms c by (auto simp add: calc_inv_def in64_def)
qed


lemma in64_small: "0 \<le> x \<Longrightarrow> x \<le> w \<Longrightarrow> in64 w \<Longrightarrow> in64 x"
  by (simp add: in64_def)

lemma calc_inv_store_notfull:
  assumes inv: "calc_inv c" and nf: "\<not> full c"
  shows "calc_inv (store_sample c s)"
proof -
  let ?n = "nat (pos c)"
  have b: "0 < windowSize c" "in64 (windowSize c)" "int (length (buf c)) = windowSize c"
      "0 \<le> pos c" "pos c < windowSize c" "?n < length (buf c)"
    using inv by (auto simp add: calc_inv_def)
  have lv: "live c = take ?n (buf c)" using nf by (simp add: live_def)
  have cnt: "count c = pos c" "winCount c = int (length (filter win (take ?n (buf c))))"
      "lossCount c = int (length (filter (\<lambda>s. \<not> win s) (take ?n (buf c))))"
    using inv lv b by (auto simp add: calc_inv_def)
  have w1: "wrap64 (pos c + 1) = pos c + 1" using b by (intro wrap64_id) (simp add: in64_def)
  have w2: "wrap64 (count c + 1) = count c + 1" using b cnt by (intro wrap64_id) (simp add: in64_def)
  have wb: "winCount c \<le> pos c" "lossCount c \<le> pos c" "0 \<le> winCount c" "0 \<le> lossCount c"
    using calc_inv_bounds [OF inv] cnt by auto
  have w3: "wrap64 (winCount c + 1) = winCount c + 1" using b wb by (intro wrap64_id) (simp add: in64_def)
  have w4: "wrap64 (lossCount c + 1) = lossCount c + 1" using b wb by (intro wrap64_id) (simp add: in64_def)
  have tk: "take (Suc ?n) ((buf c)[?n := s]) = take ?n (buf c) @ [s]"
    using b by (simp add: take_update_Suc)
  have natS: "nat (pos c + 1) = Suc ?n" using b by simp
  have lv': "live (store_sample c s) = take ?n (buf c) @ [s]"
  proof (cases "pos c + 1 \<ge> windowSize c")
    case True
    then have "Suc ?n = length (buf c)" using b by simp
    then have "take (Suc ?n) ((buf c)[?n := s]) = (buf c)[?n := s]" by simp
    with tk True show ?thesis by (simp add: store_sample_def live_def Let_def w1)
  next
    case False
    with tk show ?thesis using nf by (simp add: store_sample_def live_def Let_def w1 natS)
  qed
  show ?thesis
    unfolding calc_inv_def lv'
    using b cnt w3 [unfolded cnt] w4 [unfolded cnt] by (simp add: store_sample_def Let_def w1 w2)
qed


lemma calc_inv_store_full:
  assumes inv: "calc_inv c" and f: "full c"
  shows "calc_inv (store_sample (evict c (buf c ! nat (pos c))) s)"
proof -
  let ?n = "nat (pos c)"
  let ?old = "buf c ! ?n"
  let ?W = "int (length (filter win (buf c)))"
  let ?L = "int (length (filter (\<lambda>s. \<not> win s) (buf c)))"
  have b: "0 < windowSize c" "in64 (windowSize c)" "int (length (buf c)) = windowSize c"
      "0 \<le> pos c" "pos c < windowSize c" "?n < length (buf c)"
    using inv by (auto simp add: calc_inv_def)
  have lv: "live c = buf c" using f by (simp add: live_def)
  have cnt: "count c = windowSize c" "winCount c = ?W" "lossCount c = ?L"
    using inv lv b by (auto simp add: calc_inv_def)
  have le: "?W \<le> windowSize c" "?L \<le> windowSize c"
    using b(3) length_filter_le [of win "buf c"] length_filter_le [of "\<lambda>s. \<not> win s" "buf c"]
    by linarith+
  have posW: "win ?old \<Longrightarrow> 0 < ?W" using filter_nth_pos [of ?n "buf c" win] b by simp
  have posL: "\<not> win ?old \<Longrightarrow> 0 < ?L"
    using filter_nth_pos [of ?n "buf c" "\<lambda>s. \<not> win s"] b by simp
  have small: "\<And>x. - 1 \<le> x \<Longrightarrow> x \<le> windowSize c \<Longrightarrow> wrap64 x = x"
    using b by (intro wrap64_id) (simp add: in64_def)
  have w1: "wrap64 (pos c + 1) = pos c + 1" using b by (intro small) simp_all
  have w2: "wrap64 (windowSize c - 1) = windowSize c - 1" using b by (intro small) simp_all
  have w2': "wrap64 (windowSize c - 1 + 1) = windowSize c" using b small [of "windowSize c"] by simp
  have w3: "win ?old \<Longrightarrow> wrap64 (?W - 1) = ?W - 1" using posW le by (intro small) simp_all
  have w3': "win ?old \<Longrightarrow> wrap64 (?W - 1 + 1) = ?W" using posW le small [of ?W] by simp
  have w4: "\<not> win ?old \<Longrightarrow> wrap64 (?L - 1) = ?L - 1" using posL le by (intro small) simp_all
  have w4': "\<not> win ?old \<Longrightarrow> wrap64 (?L - 1 + 1) = ?L" using posL le small [of ?L] by simp
  have w5: "\<not> win ?old \<Longrightarrow> wrap64 (?W + 1) = ?W + 1"
    using posL le sum_length_filter_compl [of win "buf c"] b(3) by (intro small) linarith+
  have w6: "win ?old \<Longrightarrow> wrap64 (?L + 1) = ?L + 1"
    using posW le sum_length_filter_compl [of win "buf c"] b(3) by (intro small) linarith+
  have fw: "int (length (filter win ((buf c)[?n := s]))) =
            ?W - (if win ?old then 1 else 0) + (if win s then 1 else 0)"
    using b by (intro filter_update_count) simp
  have fl: "int (length (filter (\<lambda>s. \<not> win s) ((buf c)[?n := s]))) =
            ?L - (if \<not> win ?old then 1 else 0) + (if \<not> win s then 1 else 0)"
    using b by (intro filter_update_count) simp
  let ?c' = "store_sample (evict c ?old) s"
  have fields: "windowSize ?c' = windowSize c" "buf ?c' = (buf c)[?n := s]" "full ?c'"
      "pos ?c' = (if wrap64 (pos c + 1) \<ge> windowSize c then 0 else wrap64 (pos c + 1))"
      "count ?c' = wrap64 (wrap64 (count c - 1) + 1)"
      "winCount ?c' = (if win s then wrap64 ((if win ?old then wrap64 (winCount c - 1) else winCount c) + 1)
                       else (if win ?old then wrap64 (winCount c - 1) else winCount c))"
      "lossCount ?c' = (if win s then (if win ?old then lossCount c else wrap64 (lossCount c - 1))
                        else wrap64 ((if win ?old then lossCount c else wrap64 (lossCount c - 1)) + 1))"
    using f by (simp_all add: store_sample_def evict_def Let_def)
  have lv': "live ?c' = (buf c)[?n := s]" using fields by (simp add: live_def)
  have p': "0 \<le> pos ?c' \<and> pos ?c' < windowSize c"
    unfolding fields w1 using b by simp
  have c': "count ?c' = int (length ((buf c)[?n := s]))"
    unfolding fields cnt w2 w2' using b by simp
  have wc': "winCount ?c' = int (length (filter win ((buf c)[?n := s])))"
    unfolding fields cnt fw using w3 w3' w5 by (cases "win ?old"; cases "win s") simp_all
  have lc': "lossCount ?c' = int (length (filter (\<lambda>s. \<not> win s) ((buf c)[?n := s])))"
    unfolding fields cnt fl using w4 w4' w6 by (cases "win ?old"; cases "win s") simp_all
  show ?thesis
    unfolding calc_inv_def lv' using b p' c' wc' lc' fields(1,2) by simp
qed

lemma calc_inv_Add:
  assumes "calc_inv c"
  shows "\<exists>c'. Calculator_Add c po = Inr c' \<and> calc_inv c'"
proof (cases po)
  case None then show ?thesis using assms by (simp add: Calculator_Add_def)
next
  case (Some p)
  have rng: "\<not> (pos c < 0 \<or> pos c \<ge> int (length (buf c)))"
    using assms by (auto simp add: calc_inv_def)
  show ?thesis
    using assms Some rng calc_inv_store_full [of c] calc_inv_store_notfull [of c]
    by (simp add: Calculator_Add_def)
qed

lemma calc_inv_AddAll:
  "calc_inv c \<Longrightarrow> \<exists>c'. AddAll c ps = Inr c' \<and> calc_inv c'"
proof (induction ps arbitrary: c)
  case Nil then show ?case by simp
next
  case (Cons p ps)
  from calc_inv_Add [OF Cons.prems, of p] obtain c1 where
    c1: "Calculator_Add c p = Inr c1" "calc_inv c1" by blast
  from Cons.IH [OF c1(2)] c1(1) show ?case by simp
qed

text \<open>
  Claim C10. \<open>Calculator.Add\<close> does nothing for a nil position and for a position that
  is not closed. After any sequence of \<open>Add\<close> calls on a new calculator (no call
  panics), \<open>count = winCount + lossCount\<close> and \<open>0 \<le> count \<le> windowSize\<close>: the
  window never counts more samples than it holds.
\<close>

theorem calculator_add_invariants:
  "(in64 ws \<longrightarrow>
      (\<exists>c. AddAll (NewCalculator ws) ps = Inr c
           \<and> count c = winCount c + lossCount c \<and> 0 \<le> count c \<and> count c \<le> windowSize c))
   \<and> Calculator_Add c0 None = Inr c0
   \<and> (\<not> Closed p \<longrightarrow> Calculator_Add c0 (Some p) = Inr c0)"
proof (intro conjI impI)
  assume "in64 ws"
  then have "calc_inv (NewCalculator ws)" by (rule calc_inv_New)
  from calc_inv_AddAll [OF this, of ps] obtain c where
    c: "AddAll (NewCalculator ws) ps = Inr c" "calc_inv c" by blast
  from calc_inv_bounds [OF c(2)] c(1)
  show "\<exists>c. AddAll (NewCalculator ws) ps = Inr c
           \<and> count c = winCount c + lossCount c \<and> 0 \<le> count c \<and> count c \<le> windowSize c"
    by blast
next
  show "Calculator_Add c0 None = Inr c0" by (simp add: Calculator_Add_def)
next
  assume "\<not> Closed p"
  then show "Calculator_Add c0 (Some p) = Inr c0" by (simp add: Calculator_Add_def)
qed

theorem calculator_add_invariants_witness:
  "in64 2 \<and> \<not> Closed ((closedTrade 5 2 3)\<lparr>Closed := False\<rparr>)
   \<and> (\<exists>c. AddAll (NewCalculator 2)
              [Some (closedTrade 10 2 1), Some (closedTrade (- 10) 2 (- 1)),
               Some (closedTrade 20 2 1)] = Inr c
           \<and> count c = winCount c + lossCount c \<and> 0 \<le> count c \<and> count c \<le> windowSize c)
   \<and> Calculator_Add (NewCalculator 2) None = Inr (NewCalculator 2)
   \<and> Calculator_Add (NewCalculator 2) (Some ((closedTrade 5 2 3)\<lparr>Closed := False\<rparr>))
       = Inr (NewCalculator 2)"
  using calculator_add_invariants
    [of 2 "[Some (closedTrade 10 2 1), Some (closedTrade (- 10) 2 (- 1)), Some (closedTrade 20 2 1)]"
        "NewCalculator 2" "(closedTrade 5 2 3)\<lparr>Closed := False\<rparr>"]
  by (simp add: in64_def)

text \<open>
  Claim C4, as amended. The snapshot field \<open>p_required\<close> is 0 for the empty window
  (\<open>count \<le> 0\<close>: \<open>Stats\<close> returns the zero snapshot before any ratio is computed);
  for a window with samples it is \<open>(L + f) / (R + L)\<close> when \<open>R + L > 0\<close> and 1
  otherwise, with \<open>R\<close>, \<open>L\<close>, \<open>f\<close> the snapshot's own fields.
\<close>

theorem stats_p_required:
  "PRequired (Stats c) =
     (if count c \<le> 0 then 0
      else if AvgProfit (Stats c) + AvgLoss (Stats c) > 0
      then (AvgLoss (Stats c) + st_FeeBps (Stats c)) / (AvgProfit (Stats c) + AvgLoss (Stats c))
      else 1)"
  by (simp add: Stats_def emptyStats_def Let_def)

text \<open>
  The claim as stated fails on the new calculator: its window is empty, \<open>R + L = 0\<close>,
  and \<open>p_required\<close> is 0, not 1.
\<close>

theorem stats_p_required_counterexample:
  "count (NewCalculator 10) = 0
   \<and> AvgProfit (Stats (NewCalculator 10)) + AvgLoss (Stats (NewCalculator 10)) = 0
   \<and> PRequired (Stats (NewCalculator 10)) = 0
   \<and> PRequired (Stats (NewCalculator 10)) \<noteq> 1"
  by (simp add: Stats_def emptyStats_def NewCalculator_def Let_def)

subsection \<open>The paper executor\<close>

lemma close_Some:
  "exitPx e (pos_Side p) fbo = Inr px \<Longrightarrow>
   \<exists>q e'. close e key nowNs p fbo r = (Some q, e') \<and> Closed q \<and> ExitReason q = r
      \<and> ExitPx q = px \<and> ExitTimeNs q = nowNs \<and> positions e' key = Some q"
  by (simp add: close_def Let_def)

lemma close_None:
  "exitPx e (pos_Side p) fbo = Inl err \<Longrightarrow> close e key nowNs p fbo r = (None, e)"
  by (simp add: close_def)

text \<open>
  Claim C3. For an open position with \<open>E = |entry_spread_bps| > 0\<close>, on a tick where
  the current spread \<open>cur\<close> is computable (the time arithmetic staying within
  \<open>int64\<close>): the exits are tested in the order take-profit, stop-loss, timeout. If one
  of the three conditions holds and the exit price is available, the position is closed
  with reason TP when the take-profit condition holds, else SL when the stop-loss
  condition holds, else TIMEOUT; otherwise nothing is returned and nothing changes.
\<close>

theorem exit_priority:
  assumes pre: "Exchange lb = x_leader e" "Exchange fb = ExchangeBittap"
      "SymbolCanon lb \<noteq> []" "SymbolCanon fb = SymbolCanon lb"
    and open_pos: "positions e (SymbolCanon lb) = Some p" "\<not> Closed p"
    and E: "0 < \<bar>EntrySpread p\<bar>"
    and C: "currentSpreadBps (pos_Side p) lb fb = (cur, True)"
    and rng: "in64 (nowNs - EntryTimeNs p)" "in64 (MaxHoldMs (x_cfg e) * 1000000)"
  shows "if (tpHolds (x_cfg e) (abs (EntrySpread p)) (abs cur)
             \<or> slHolds (x_cfg e) (abs (EntrySpread p)) (abs cur)
             \<or> timeoutHolds (x_cfg e) nowNs (EntryTimeNs p))
            \<and> \<not> isl (exitPx e (pos_Side p) (Some fb))
         then \<exists>q e'. Executor_Evaluate e nowNs (Some lb) (Some fb) = (Some q, e') \<and> Closed q
                \<and> ExitReason q =
                    (if tpHolds (x_cfg e) (abs (EntrySpread p)) (abs cur) then ExitTP
                     else if slHolds (x_cfg e) (abs (EntrySpread p)) (abs cur) then ExitSL
                     else ExitTimeout)
         else Executor_Evaluate e nowNs (Some lb) (Some fb) = (None, e)"
proof -
  let ?TP = "tpHolds (x_cfg e) (abs (EntrySpread p)) (abs cur)"
  let ?SL = "slHolds (x_cfg e) (abs (EntrySpread p)) (abs cur)"
  let ?TMO = "timeoutHolds (x_cfg e) nowNs (EntryTimeNs p)"
  have w: "wrap64 (nowNs - EntryTimeNs p) = nowNs - EntryTimeNs p"
      "wrap64 (MaxHoldMs (x_cfg e) * 1000000) = MaxHoldMs (x_cfg e) * 1000000"
    using rng by (simp_all add: wrap64_id)
  have ev: "Executor_Evaluate e nowNs (Some lb) (Some fb) =
        (if ?TP then close e (SymbolCanon lb) nowNs p (Some fb) ExitTP
         else if ?SL then close e (SymbolCanon lb) nowNs p (Some fb) ExitSL
         else if ?TMO then close e (SymbolCanon lb) nowNs p (Some fb) ExitTimeout
         else (None, e))"
    using pre open_pos E C
    by (simp add: Executor_Evaluate_def w tpHolds_def slHolds_def timeoutHolds_def Let_def)
  show ?thesis
  proof (cases "exitPx e (pos_Side p) (Some fb)")
    case (Inl err)
    then have cl: "\<And>r. close e (SymbolCanon lb) nowNs p (Some fb) r = (None, e)"
      by (rule close_None)
    show ?thesis by (simp add: ev cl Inl)
  next
    case (Inr px)
    have cl: "\<And>r. \<exists>q e'. close e (SymbolCanon lb) nowNs p (Some fb) r = (Some q, e')
                \<and> Closed q \<and> ExitReason q = r"
      using close_Some [OF Inr, of "SymbolCanon lb" nowNs] by blast
    show ?thesis
    proof (cases ?TP)
      case True
      with cl [of ExitTP] show ?thesis by (simp add: ev Inr)
    next
      case nTP: False
      show ?thesis
      proof (cases ?SL)
        case True
        with nTP cl [of ExitSL] show ?thesis by (simp add: ev Inr)
      next
        case nSL: False
        show ?thesis
        proof (cases ?TMO)
          case True
          with nTP nSL cl [of ExitTimeout] show ?thesis by (simp add: ev Inr)
        next
          case False
          with nTP nSL show ?thesis by (simp add: ev)
        qed
      qed
    qed
  qed
qed

theorem exit_priority_witness:
  "tpHolds exPaper 100 (10000 / 9999) \<and> timeoutHolds exPaper 62000000000 1000000000
   \<and> (\<exists>q e'. Executor_Evaluate exExecutor 62000000000 (Some exLeader)
                 (Some (bookOf ExchangeBittap ''BTCUSDT'' (9998 / 100) (9999 / 100) 62000000000 0))
               = (Some q, e') \<and> Closed q \<and> ExitReason q = ExitTP)"
  using exit_priority [of exLeader exExecutor
      "bookOf ExchangeBittap ''BTCUSDT'' (9998 / 100) (9999 / 100) 62000000000 0"
      exPosition "10000 / 9999" 62000000000]
  by (simp add: ex_defs currentSpreadBps_def exitPx_def in64_def tpHolds_def slHolds_def
        timeoutHolds_def)

text \<open>
  Claim C9. When the follower book side that the exit price needs is not positive (best
  bid for LONG, best ask for SHORT), \<open>Evaluate\<close> returns nil for an open position and
  leaves the executor, and so the position, exactly as it was, whether or not an exit
  condition holds.
\<close>

theorem exit_price_missing:
  assumes "positions e (SymbolCanon lb) = Some p" "\<not> Closed p"
    and "pos_Side p = SideLong \<longrightarrow> BestBidPx fb \<le> 0"
    and "pos_Side p = SideShort \<longrightarrow> BestAskPx fb \<le> 0"
  shows "Executor_Evaluate e nowNs (Some lb) (Some fb) = (None, e)"
proof -
  have "\<exists>err. exitPx e (pos_Side p) (Some fb) = Inl err"
    using assms(3,4) by (simp add: exitPx_def Let_def)
  then obtain err where "exitPx e (pos_Side p) (Some fb) = Inl err" ..
  then have cl: "\<And>k r. close e k nowNs p (Some fb) r = (None, e)"
    by (rule close_None)
  show ?thesis
  proof (cases "SymbolCanon lb = SymbolCanon fb")
    case True
    then have "positions e (SymbolCanon fb) = Some p" using assms(1) by simp
    with True assms(1) show ?thesis
      by (simp add: Executor_Evaluate_def cl Let_def split: prod.splits)
  next
    case False
    then show ?thesis by (simp add: Executor_Evaluate_def)
  qed
qed

theorem exit_price_missing_witness:
  "tpHolds exPaper 100 (10000 / 9999)
   \<and> Executor_Evaluate exExecutor 1200000000 (Some exLeader)
        (Some (bookOf ExchangeBittap ''BTCUSDT'' 0 (9999 / 100) 1200000000 0))
      = (None, exExecutor)
   \<and> positions exExecutor ''BTCUSDT'' = Some exPosition \<and> \<not> Closed exPosition"
  using exit_price_missing [of exExecutor exLeader exPosition
      "bookOf ExchangeBittap ''BTCUSDT'' 0 (9999 / 100) 1200000000 0" 1200000000]
  by (simp add: ex_defs tpHolds_def)

text \<open>The same position closes on a later tick, once the follower's bid is back.\<close>

lemma later_tick_closes:
  "fst (Executor_Evaluate exExecutor 1300000000 (Some exLeader)
          (Some (bookOf ExchangeBittap ''BTCUSDT'' (9998 / 100) (9999 / 100) 1300000000 0)))
   = Some (exPosition\<lparr>ExitPx := 9998 / 100, ExitTimeNs := 1300000000, ExitReason := ExitTP,
                         GrossPnLBps := 8000 / 999, NetPnLBps := 8000 / 999, Closed := True\<rparr>)"
  by (simp add: Executor_Evaluate_def close_def exitPx_def currentSpreadBps_def Direction_def
        ex_defs Let_def)

subsection \<open>The signal engine\<close>

lemma tryFire_Some:
  "tryFire e nowNs lb fb side bps cand = (Some sg, c) \<Longrightarrow> sg = mkSignal e nowNs lb fb side bps"
  by (auto simp add: tryFire_def Let_def split: if_splits)

lemma evalSpreads_Some:
  assumes "evalSpreads e nowNs lb fb st = (Some sg, st')"
  shows "\<exists>side bps. sg = mkSignal e nowNs lb fb side bps"
  using assms
  by (auto simp add: evalSpreads_def Let_def split: prod.splits if_splits dest!: tryFire_Some)

lemma Engine_Evaluate_Some:
  assumes "Engine_Evaluate e nowNs lbo fbo = Inr (Some sg, e')"
  shows "\<exists>lb fb side bps. sg = mkSignal e nowNs lb fb side bps"
  using assms
  by (auto simp add: Engine_Evaluate_def Let_def
        split: option.splits prod.splits if_splits sum.splits dest!: evalSpreads_Some)

lemma emitted_not_rejected:
  assumes "Engine_Evaluate e nowNs lbo fbo = Inr (Some sg, e')"
  shows "\<not> RejectedByEV sg" "FilterReason sg = []"
  using Engine_Evaluate_Some [OF assms] by (auto simp add: mkSignal_def)

subsection \<open>EV rejection\<close>

text \<open>
  Claim C2. For a signal \<open>sg\<close> that the engine emitted and any state of the EV
  calculator, \<open>applyEVAndMaybeOpen\<close> hands to the signals writer the signal \<open>sg'\<close>
  whose \<open>RejectedByEV\<close> flag is set if and only if the snapshot has \<open>Count > 0\<close> and
  \<open>EV < 0\<close>, then with \<open>FilterReason = "ev_negative"\<close>. A rejected signal is written
  all the same, and the executor is left as it was (\<open>TryOpen\<close> is not called); a signal
  that is not rejected goes to \<open>TryOpen\<close>.
\<close>

theorem ev_rejection:
  assumes emitted: "Engine_Evaluate eng nowNs lbo fbo = Inr (Some sg, eng')"
    and res: "applyEVAndMaybeOpen (Some sg) evCalc exec (Some w) pw lg = (exec', sw', lg')"
  shows "\<exists>sg'. sw' = Some (w @ [sg'])
           \<and> sg' = (if Count (Stats evCalc) > 0 \<and> EV (Stats evCalc) < 0
                    then sg\<lparr>RejectedByEV := True, FilterReason := ''ev_negative''\<rparr> else sg)
           \<and> (RejectedByEV sg' \<longleftrightarrow> Count (Stats evCalc) > 0 \<and> EV (Stats evCalc) < 0)
           \<and> (RejectedByEV sg' \<longrightarrow> FilterReason sg' = ''ev_negative'' \<and> exec' = exec \<and> lg' = lg)
           \<and> (\<not> RejectedByEV sg' \<longrightarrow> exec' = snd (TryOpen exec (Some sg)))"
proof (cases "Count (Stats evCalc) > 0 \<and> EV (Stats evCalc) < 0")
  case True
  with res show ?thesis
    by (auto simp add: applyEVAndMaybeOpen_def ApplyRejection_def Let_def)
next
  case False
  with res emitted_not_rejected [OF emitted] show ?thesis
    by (auto simp add: applyEVAndMaybeOpen_def ApplyRejection_def Let_def
          split: prod.splits option.splits)
qed

lemma exLosing_reached:
  "AddAll (NewCalculator 3)
     [Some (closedTrade 1 2 (- 1)), Some (closedTrade 1 2 (- 1)), Some (closedTrade (- 20) 2 (- 22))]
   = Inr exLosing"
  by (simp add: NewCalculator_def Calculator_Add_def store_sample_def evict_def exLosing_def
        closedTrade_def sampleOf_def wrap64_def Let_def numeral_3_eq_3)

lemma exSignal_emitted:
  "Engine_Evaluate exEngine 1000000000 (Some exLeader) (Some exFollower)
   = Inr (Some exSignal,
          engine_of (Engine_Evaluate exEngine 1000000000 (Some exLeader) (Some exFollower)) exEngine)"
  by (simp add: Engine_Evaluate_def exEngine_def NewEngine_def ex_defs IsValid_def getState_def
        newSymbolState_def zeroCand_def evalSpreads_def calcLongSpreadBps_def tryFire_def
        putState_def engine_of_def exSignal_def wrap64_def Let_def)

lemma exLosing_stats: "Count (Stats exLosing) = 3 \<and> EV (Stats exLosing) = - 28 / 3"
  by (simp add: Stats_def exLosing_def emptyStats_def Let_def)

theorem ev_rejection_witness:
  "Engine_Evaluate exEngine 1000000000 (Some exLeader) (Some exFollower)
   = Inr (Some exSignal,
          engine_of (Engine_Evaluate exEngine 1000000000 (Some exLeader) (Some exFollower)) exEngine)
   \<and> 0 < Count (Stats exLosing) \<and> EV (Stats exLosing) < 0
   \<and> applyEVAndMaybeOpen (Some exSignal) exLosing (NewExecutor ExchangeOKX exPaper exFee)
         (Some []) (Some []) []
      = (NewExecutor ExchangeOKX exPaper exFee,
         Some [exSignal\<lparr>RejectedByEV := True, FilterReason := ''ev_negative''\<rparr>], [])"
proof -
  have r: "applyEVAndMaybeOpen (Some exSignal) exLosing (NewExecutor ExchangeOKX exPaper exFee)
         (Some []) (Some []) []
      = (NewExecutor ExchangeOKX exPaper exFee,
         Some [exSignal\<lparr>RejectedByEV := True, FilterReason := ''ev_negative''\<rparr>], [])"
    using exLosing_stats by (simp add: applyEVAndMaybeOpen_def ApplyRejection_def)
  from ev_rejection [OF exSignal_emitted r] exSignal_emitted exLosing_stats r
  show ?thesis by simp
qed

subsection \<open>The lag tracker\<close>

text \<open>
  Claim C8 at an input where it fails. The leader's exchange timestamp is positive
  (1700000000000 ms) and the follower arrives at exactly that instant
  (1700000000000000000 ns), so the event lag is 0. The arrival lag (10 ms) is recorded;
  the event lag is not: the event window is still empty, with a count of 0.
\<close>

theorem tracker_add_zero_event_lag:
  "NewTracker 10000 = Inr exTracker
   \<and> 0 < ExchTsUnixMs (bookOf ExchangeOKX ''BTCUSDT'' 100 (10001 / 100)
                          1699999999990000000 1700000000000)
   \<and> Tracker_Add exTracker
       (Some (bookOf ExchangeOKX ''BTCUSDT'' 100 (10001 / 100)
                1699999999990000000 1700000000000))
       (Some (bookOf ExchangeBittap ''BTCUSDT'' (998 / 10) (999 / 10) 1700000000000000000 0))
     = Inr (exTracker\<lparr>okx :=
              \<lparr> arrived = \<lparr> w_size = 10000, w_buf = [10000000], w_pos = 0, w_count = 1,
                            w_full = False \<rparr>,
                event = emptyWindow \<rparr>\<rparr>)"
  by (simp add: NewTracker_def newRollingWindow_def exTracker_def emptyWindow_def
        Tracker_Add_def bookOf_def ExchangeOKX_def ExchangeBittap_def ExchangeBinance_def
        link_add_def rw_add_def MsToNano_def wrap64_def Let_def)

subsection \<open>Stop-loss cooldown\<close>

lemma getState_NotifyStopLoss:
  "getState (NotifyStopLoss e symb t0) symb =
     ((fst (getState e symb))\<lparr>cooldownUntilNs := wrap64 (t0 + wrap64 (CooldownMs (cfg e) * 1000000))\<rparr>,
      NotifyStopLoss e symb t0)"
  by (simp add: NotifyStopLoss_def getState_def putState_def Let_def split: option.splits)

lemma NotifyStopLoss_fields:
  "leader (NotifyStopLoss e symb t0) = leader e" "cfg (NotifyStopLoss e symb t0) = cfg e"
  by (simp_all add: NotifyStopLoss_def getState_def putState_def Let_def split: option.splits)

text \<open>
  Claim C7, as amended. After \<open>NotifyStopLoss symb t0\<close>, with a deadline
  \<open>t0 + cooldown_ms * 10^6\<close> that is positive (and within \<open>int64\<close>), every
  evaluation on that symbol at a time \<open>t\<close> with \<open>t0 \<le> t < t0 + cooldown_ms * 10^6\<close>
  returns no signal and leaves the engine, the symbol's candidate state included,
  unchanged. The window is half-open: at the deadline itself a signal may fire.
\<close>

theorem cooldown_blocks:
  assumes rng: "in64 (CooldownMs (cfg e) * 1000000)" "in64 (t0 + CooldownMs (cfg e) * 1000000)"
    and dl: "0 < t0 + CooldownMs (cfg e) * 1000000"
    and t: "t0 \<le> t" "t < t0 + CooldownMs (cfg e) * 1000000"
    and symb: "SymbolCanon lb = symb"
  shows "Engine_Evaluate (NotifyStopLoss e symb t0) t (Some lb) (Some fb)
         = Inr (None, NotifyStopLoss e symb t0)"
proof -
  have w: "wrap64 (t0 + wrap64 (CooldownMs (cfg e) * 1000000)) = t0 + CooldownMs (cfg e) * 1000000"
    using rng by (simp add: wrap64_id)
  show ?thesis
    using dl t symb
    by (simp add: Engine_Evaluate_def getState_NotifyStopLoss NotifyStopLoss_fields w)
qed

theorem cooldown_blocks_witness:
  "in64 (CooldownMs (cfg exEngine) * 1000000) \<and> in64 (1000000000 + CooldownMs (cfg exEngine) * 1000000)
   \<and> 1000000000 + CooldownMs (cfg exEngine) * 1000000 = 4000000000
   \<and> Engine_Evaluate (NotifyStopLoss exEngine ''BTCUSDT'' 1000000000) 3999999999
         (Some exLeader) (Some exFollower)
       = Inr (None, NotifyStopLoss exEngine ''BTCUSDT'' 1000000000)"
  using cooldown_blocks [of exEngine 1000000000 3999999999 exLeader "''BTCUSDT''" exFollower]
  by (simp add: exEngine_def NewEngine_def ex_defs in64_def)

text \<open>
  The claim as stated, with the closed interval, fails at its right end: with a cooldown of
  3000 ms armed at 1 s, the evaluation at exactly 4 s returns a LONG signal.
\<close>

theorem cooldown_closed_interval_counterexample:
  "1000000000 + CooldownMs (cfg exEngine) * 1000000 = 4000000000
   \<and> fired (Engine_Evaluate (NotifyStopLoss exEngine ''BTCUSDT'' 1000000000) 4000000000
              (Some exLeader) (Some exFollower)) = Some SideLong"
  by (simp add: Engine_Evaluate_def NotifyStopLoss_def
        exEngine_def NewEngine_def ex_defs IsValid_def getState_def
        newSymbolState_def zeroCand_def evalSpreads_def calcLongSpreadBps_def tryFire_def
        putState_def fired_def mkSignal_def wrap64_def Let_def)

subsection \<open>Volatility filter\<close>

lemma logReturns_nonempty: "logReturns xs \<noteq> [] \<Longrightarrow> 2 \<le> length xs"
  by (cases xs rule: logReturns.cases) auto

lemma two_members_length: "a \<in> set xs \<Longrightarrow> b \<in> set xs \<Longrightarrow> a \<noteq> b \<Longrightarrow> 2 \<le> length xs"
proof -
  assume a: "a \<in> set xs" "b \<in> set xs" "a \<noteq> b"
  then have "{a, b} \<subseteq> set xs" by simp
  then have "card {a, b} \<le> card (set xs)" by (intro card_mono) simp_all
  moreover have "card {a, b} = 2" using a by simp
  moreover have "card (set xs) \<le> length xs" by (rule card_length)
  ultimately show ?thesis by linarith
qed

lemma member_le_sum_list_nonneg:
  fixes f :: "'a \<Rightarrow> real"
  shows "x \<in> set xs \<Longrightarrow> (\<forall>y\<in>set xs. 0 \<le> f y) \<Longrightarrow> f x \<le> sum_list (map f xs)"
proof (induction xs)
  case Nil then show ?case by simp
next
  case (Cons a xs)
  have nn: "0 \<le> sum_list (map f xs)" using Cons.prems(2) by (intro sum_list_nonneg) auto
  show ?case
  proof (cases "x = a")
    case True with nn show ?thesis by simp
  next
    case False
    with Cons have "f x \<le> sum_list (map f xs)" by simp
    moreover have "0 \<le> f a" using Cons.prems(2) by simp
    ultimately show ?thesis by simp
  qed
qed

lemma realizedVol_pos:
  assumes r: "r1 \<in> set (logReturns (samples (vol st)))"
      "r2 \<in> set (logReturns (samples (vol st)))" "r1 \<noteq> r2"
  shows "0 < realizedVol st"
proof -
  let ?rs = "logReturns (samples (vol st))"
  let ?mean = "sum_list ?rs / real (length ?rs)"
  let ?f = "\<lambda>r. (r - ?mean) * (r - ?mean)"
  have len: "2 \<le> length ?rs" using r by (rule two_members_length)
  then have "?rs \<noteq> []" by auto
  then have slen: "2 \<le> length (samples (vol st))" by (rule logReturns_nonempty)
  obtain x where x: "x \<in> set ?rs" "x \<noteq> ?mean" using r by metis
  then have "0 < ?f x" by (simp add: zero_less_mult_iff less_le)
  also have "?f x \<le> sum_list (map ?f ?rs)"
    using x(1) by (intro member_le_sum_list_nonneg) simp_all
  finally have ss: "0 < sum_list (map ?f ?rs)" .
  have "0 < real (length ?rs - 1)" using len by simp
  with ss have "0 < sqrt (sum_list (map ?f ?rs) / real (length ?rs - 1))" by simp
  then show ?thesis using len slen by (simp add: realizedVol_def Let_def)
qed

text \<open>
  Claim C6, as amended. With the volatility filter enabled and threshold 0, an
  evaluation returns no signal when the symbol's sample window, after this tick's
  sampling, yields at least two log-returns that are not all equal (so at least three
  positive samples): exactly then the realized volatility, the sample standard deviation
  (ddof = 1) of the log-returns, is positive.
\<close>

theorem vol_filter_blocks:
  assumes en: "VolFilterEnabled (cfg e)" and th: "VolThreshold (cfg e) = 0"
    and upd: "updateVol (fst (getState e (SymbolCanon lb))) nowNs (MidPrice lb) = Inr st2"
    and r: "r1 \<in> set (logReturns (samples (vol st2)))"
      "r2 \<in> set (logReturns (samples (vol st2)))" "r1 \<noteq> r2"
  shows "\<exists>e'. Engine_Evaluate e nowNs (Some lb) (Some fb) = Inr (None, e')"
proof -
  have v: "0 < realizedVol st2" using r by (rule realizedVol_pos)
  obtain st e1 where g: "getState e (SymbolCanon lb) = (st, e1)" by (cases "getState e (SymbolCanon lb)")
  with upd have upd': "updateVol st nowNs (MidPrice lb) = Inr st2" by simp
  show ?thesis
  proof (cases "SymbolCanon lb = SymbolCanon fb")
    case True
    with g have g': "getState e (SymbolCanon fb) = (st, e1)" by simp
    show ?thesis
      using en th v True by (simp add: Engine_Evaluate_def g' upd')
  next
    case False
    then show ?thesis by (simp add: Engine_Evaluate_def)
  qed
qed

theorem vol_filter_blocks_witness:
  "VolFilterEnabled (cfg exVolEngine2) \<and> VolThreshold (cfg exVolEngine2) = 0
   \<and> logReturns [20001 / 200, 22001 / 200, 18001 / 200]
       = [ln (22001 / 20001), ln (18001 / 22001)]
   \<and> ln (22001 / 20001) \<noteq> ln (18001 / 22001 :: real)
   \<and> (\<exists>e'. Engine_Evaluate exVolEngine2 3000000000
              (Some (bookOf ExchangeOKX ''BTCUSDT'' 90 (9001 / 100) 3000000000 0))
              (Some exFollower) = Inr (None, e'))"
  using vol_filter_blocks [of exVolEngine2
      "bookOf ExchangeOKX ''BTCUSDT'' 90 (9001 / 100) 3000000000 0" 3000000000
      "newSymbolState\<lparr>vol := \<lparr> lastSampleNs = 3000000000,
                                 samples = [20001 / 200, 22001 / 200, 18001 / 200],
                                 maxSamples = 60 \<rparr>\<rparr>"
      "ln (22001 / 20001)" "ln (18001 / 22001)" exFollower]
  by (simp add: exVolEngine2_def exVolEngine_def exVolStrategy_def NewEngine_def ex_defs
        getState_def updateVol_def MidPrice_def newSymbolState_def wrap64_def Let_def)

text \<open>
  The claim as stated fails with two samples: after evaluations at 1 s (mid price
  100.005) and 2 s (mid price 110.005) two differing samples have been observed, there is
  one log-return only, the realized volatility is 0, and the second evaluation returns a
  LONG signal.
\<close>

theorem vol_filter_two_samples_counterexample:
  "VolFilterEnabled (cfg exVolEngine) \<and> VolThreshold (cfg exVolEngine) = 0
   \<and> fired (Engine_Evaluate
               (engine_of (Engine_Evaluate exVolEngine 1000000000 (Some exLeader) (Some exFollower))
                  exVolEngine)
               2000000000
               (Some (bookOf ExchangeOKX ''BTCUSDT'' 110 (11001 / 100) 2000000000 0))
               (Some exFollower)) = Some SideLong
   \<and> map_option (\<lambda>st. samples (vol st))
        (states (engine_of (Engine_Evaluate
               (engine_of (Engine_Evaluate exVolEngine 1000000000 (Some exLeader) (Some exFollower))
                  exVolEngine)
               2000000000
               (Some (bookOf ExchangeOKX ''BTCUSDT'' 110 (11001 / 100) 2000000000 0))
               (Some exFollower)) exVolEngine) ''BTCUSDT'')
      = Some [20001 / 200, 22001 / 200]"
  by (simp add: Engine_Evaluate_def exVolEngine_def exVolStrategy_def NewEngine_def ex_defs
        IsValid_def getState_def updateVol_def MidPrice_def realizedVol_def
        newSymbolState_def zeroCand_def evalSpreads_def calcLongSpreadBps_def
        calcShortSpreadBps_def tryFire_def
        putState_def fired_def engine_of_def mkSignal_def wrap64_def Let_def)

subsection \<open>The book store and the aggregator\<close>

lemma handleBookEvent_store:
  assumes "handleBookEvent st evo = Inr st'"
  shows "bookStore st' = Update (bookStore st) evo"
proof (cases evo)
  case None
  with assms show ?thesis by (simp add: handleBookEvent_def Update_def)
next
  case (Some ev)
  show ?thesis
  proof (cases "Exchange ev = [] \<or> SymbolCanon ev = []")
    case True
    with assms Some show ?thesis by (auto simp add: handleBookEvent_def Update_def)
  next
    case False
    with assms Some show ?thesis
      by (auto simp add: handleBookEvent_def Let_def split: sum.splits prod.splits if_splits)
  qed
qed

lemma Get_Update:
  "Get (Update s evo) ex symb =
     (case evo of
        None \<Rightarrow> Get s ex symb
      | Some ev \<Rightarrow>
          if Exchange ev \<noteq> [] \<and> SymbolCanon ev \<noteq> [] \<and> ex = Exchange ev \<and> symb = SymbolCanon ev
          then Some ev else Get s ex symb)"
  by (auto simp add: Get_def Update_def Let_def split: option.splits)

lemma runEvents_store:
  "runEvents st evs = Inr st' \<Longrightarrow> Get (bookStore st') ex symb = Some b \<Longrightarrow>
   (Some b \<in> set evs \<and> Exchange b = ex \<and> SymbolCanon b = symb \<and> ex \<noteq> [] \<and> symb \<noteq> [])
   \<or> Get (bookStore st) ex symb = Some b"
proof (induction evs arbitrary: st)
  case Nil then show ?case by simp
next
  case (Cons ev evs)
  from Cons.prems(1) obtain st1 where
    st1: "handleBookEvent st ev = Inr st1" "runEvents st1 evs = Inr st'"
    by (auto split: sum.splits)
  from Cons.IH [OF st1(2) Cons.prems(2)]
  show ?case
  proof
    assume "Some b \<in> set evs \<and> Exchange b = ex \<and> SymbolCanon b = symb \<and> ex \<noteq> [] \<and> symb \<noteq> []"
    then show ?thesis by simp
  next
    assume "Get (bookStore st1) ex symb = Some b"
    then have "Get (Update (bookStore st) ev) ex symb = Some b"
      using handleBookEvent_store [OF st1(1)] by simp
    then show ?thesis
      by (auto simp add: Get_Update split: option.splits if_splits)
  qed
qed

lemma Engine_Evaluate_invalid:
  "\<not> IsValid lb \<or> \<not> IsValid fb \<Longrightarrow> Engine_Evaluate e nowNs (Some lb) (Some fb) = Inr (None, e)"
  by (auto simp add: Engine_Evaluate_def)

text \<open>
  Claim C1, as amended. After any sequence of aggregator steps from the empty store,
  every entry that \<open>Get\<close> returns is one of the inbound events, filed under its own
  exchange and symbol, both non-empty. Validity is not checked before \<open>Update\<close>: an
  inbound event with a non-empty exchange and symbol is stored, valid or not. The
  validity guard is in the signal engine: \<open>Evaluate\<close> returns no signal, and changes
  nothing, when either book of the pair is invalid.
\<close>

theorem stored_events:
  "(bookStore st0 = Store_New \<and> runEvents st0 evs = Inr st \<and> Get (bookStore st) ex symb = Some b
      \<longrightarrow> Some b \<in> set evs \<and> Exchange b = ex \<and> SymbolCanon b = symb \<and> ex \<noteq> [] \<and> symb \<noteq> [])
   \<and> (handleBookEvent st1 (Some ev) = Inr st2 \<and> Exchange ev \<noteq> [] \<and> SymbolCanon ev \<noteq> []
      \<longrightarrow> Get (bookStore st2) (Exchange ev) (SymbolCanon ev) = Some ev)
   \<and> (\<not> IsValid lb \<or> \<not> IsValid fb
      \<longrightarrow> Engine_Evaluate e nowNs (Some lb) (Some fb) = Inr (None, e))"
proof (intro conjI impI)
  assume a: "bookStore st0 = Store_New \<and> runEvents st0 evs = Inr st \<and> Get (bookStore st) ex symb = Some b"
  then have "Get (bookStore st0) ex symb = None" by (simp add: Store_New_def Get_def)
  with runEvents_store [of st0 evs st ex symb b] a
  show "Some b \<in> set evs" "Exchange b = ex" "SymbolCanon b = symb" "ex \<noteq> []" "symb \<noteq> []"
    by auto
next
  assume a: "handleBookEvent st1 (Some ev) = Inr st2 \<and> Exchange ev \<noteq> [] \<and> SymbolCanon ev \<noteq> []"
  then show "Get (bookStore st2) (Exchange ev) (SymbolCanon ev) = Some ev"
    using handleBookEvent_store [of st1 "Some ev" st2] by (simp add: Get_Update)
next
  assume "\<not> IsValid lb \<or> \<not> IsValid fb"
  then show "Engine_Evaluate e nowNs (Some lb) (Some fb) = Inr (None, e)"
    by (rule Engine_Evaluate_invalid)
qed

lemma initState_ex: "initState exStrategy exPaper exFee = Inr exInit"
  by (simp add: initState_def exInit_def NewTracker_def newRollingWindow_def exTracker_def
        emptyWindow_def)

lemma handle_empty_book:
  "handleBookEvent exInit (Some exEmptyBook) =
     Inr (exInit\<lparr>bookStore := \<lparr> books = [ExchangeOKX \<mapsto> [''BTCUSDT'' \<mapsto> exEmptyBook]] \<rparr>,
                 counts := [(ExchangeOKX, ''BTCUSDT'') \<mapsto> 1]\<rparr>)"
  by (simp add: handleBookEvent_def exInit_def exEmptyBook_def Update_def Store_New_def
        GetPair_def Get_def evalLink_def ExchangeOKX_def ExchangeBittap_def ExchangeBinance_def
        wrap64_def Let_def)

theorem stored_events_witness:
  "bookStore exInit = Store_New
   \<and> runEvents exInit [Some exEmptyBook, Some exLeader]
       = Inr (projr (runEvents exInit [Some exEmptyBook, Some exLeader]))
   \<and> Get (bookStore (projr (runEvents exInit [Some exEmptyBook, Some exLeader])))
        ExchangeOKX ''BTCUSDT'' = Some exLeader
   \<and> Some exLeader \<in> set [Some exEmptyBook, Some exLeader]
   \<and> handleBookEvent exInit (Some exEmptyBook) = Inr (projr (handleBookEvent exInit (Some exEmptyBook)))
   \<and> Get (bookStore (projr (handleBookEvent exInit (Some exEmptyBook))))
        (Exchange exEmptyBook) (SymbolCanon exEmptyBook) = Some exEmptyBook
   \<and> \<not> IsValid exEmptyBook
   \<and> Engine_Evaluate exEngine 1000000000 (Some exEmptyBook) (Some exFollower) = Inr (None, exEngine)"
proof -
  let ?st1 = "exInit\<lparr>bookStore := \<lparr> books = [ExchangeOKX \<mapsto> [''BTCUSDT'' \<mapsto> exEmptyBook]] \<rparr>,
                 counts := [(ExchangeOKX, ''BTCUSDT'') \<mapsto> 1]\<rparr>"
  have h2: "handleBookEvent ?st1 (Some exLeader) =
     Inr (exInit\<lparr>bookStore := \<lparr> books = [ExchangeOKX \<mapsto> [''BTCUSDT'' \<mapsto> exLeader]] \<rparr>,
                 counts := [(ExchangeOKX, ''BTCUSDT'') \<mapsto> 2]\<rparr>)"
    by (simp add: handleBookEvent_def exInit_def exLeader_def bookOf_def Update_def Store_New_def
        GetPair_def Get_def evalLink_def ExchangeOKX_def ExchangeBittap_def ExchangeBinance_def
        wrap64_def Let_def)
  have run: "runEvents exInit [Some exEmptyBook, Some exLeader] =
     Inr (exInit\<lparr>bookStore := \<lparr> books = [ExchangeOKX \<mapsto> [''BTCUSDT'' \<mapsto> exLeader]] \<rparr>,
                 counts := [(ExchangeOKX, ''BTCUSDT'') \<mapsto> 2]\<rparr>)"
    by (simp add: handle_empty_book h2)
  have inv: "\<not> IsValid exEmptyBook" by (simp add: IsValid_def exEmptyBook_def)
  have keys: "Exchange exEmptyBook = ExchangeOKX" "SymbolCanon exEmptyBook = ''BTCUSDT''"
    by (simp_all add: exEmptyBook_def)
  have s0: "bookStore exInit = Store_New" by (simp add: exInit_def)
  from stored_events [of exInit "[Some exEmptyBook, Some exLeader]"
      "projr (runEvents exInit [Some exEmptyBook, Some exLeader])" ExchangeOKX "''BTCUSDT''"
      exLeader exInit exEmptyBook "projr (handleBookEvent exInit (Some exEmptyBook))"
      exEmptyBook exFollower exEngine 1000000000]
  show ?thesis
    using inv s0 by (simp add: run handle_empty_book keys Get_def del: runEvents.simps)
qed

text \<open>
  The claim as stated fails on the first event: from the start-up state, an OKX event with
  an empty book (both best prices 0, hence invalid) is stored and \<open>Get\<close> returns it.
\<close>

theorem invalid_event_stored_counterexample:
  "initState exStrategy exPaper exFee = Inr exInit
   \<and> \<not> IsValid exEmptyBook
   \<and> Get (bookStore (projr (handleBookEvent exInit (Some exEmptyBook)))) ExchangeOKX ''BTCUSDT''
       = Some exEmptyBook
   \<and> \<not> isl (handleBookEvent exInit (Some exEmptyBook))"
proof -
  have "\<not> IsValid exEmptyBook" by (simp add: IsValid_def exEmptyBook_def)
  then show ?thesis using initState_ex by (simp add: handle_empty_book Get_def)
qed

subsection \<open>Exponential backoff\<close>

lemma shl1_small:
  assumes "0 \<le> k" "k < 63"
  shows "shl1 k = Inr (2 ^ nat k)"
proof -
  have "nat k < 63" using assms by simp
  then have "(2::int) ^ nat k < 2 ^ 63" by (intro power_strict_increasing) simp_all
  then have hi: "(2::int) ^ nat k < 9223372036854775808" by simp
  have lo: "(- 9223372036854775808 :: int) \<le> 2 ^ nat k"
    by (rule order_trans [of _ 0]) simp_all
  have "in64 (2 ^ nat k)" by (simp add: in64_def lo hi)
  then show ?thesis using assms by (simp add: shl1_def wrap64_id)
qed

lemma attempt_small:
  assumes "0 < base" "in64 (base * 2 ^ n)"
  shows "n < 63"
proof (rule ccontr)
  assume "\<not> n < 63"
  then have "63 \<le> n" by simp
  then have "(2::int) ^ 63 \<le> 2 ^ n" by (intro power_increasing) simp_all
  moreover have "(2::int) ^ n \<le> base * 2 ^ n"
    using assms(1) mult_right_mono [of 1 base "2 ^ n"] by simp
  moreover have "base * 2 ^ n < 2 ^ 63" using assms(2) by (simp add: in64_def)
  ultimately show False by linarith
qed

lemma Next_value:
  assumes base: "0 < b_base b" and att: "0 \<le> b_attempt b"
    and rng: "in64 (b_base b * 2 ^ nat (b_attempt b))"
  shows "Next b u =
     Inr (if b_jitter b > 0
          then trunc64 (real_of_int (capped (b_base b) (b_max b) (nat (b_attempt b)))
                          * (1 + (u * 2 - 1) * b_jitter b))
          else capped (b_base b) (b_max b) (nat (b_attempt b)),
          b\<lparr>b_attempt := b_attempt b + 1\<rparr>)"
proof -
  have k: "nat (b_attempt b) < 63" using base rng by (rule attempt_small)
  then have k': "b_attempt b < 63" using att by simp
  have s: "shl1 (b_attempt b) = Inr (2 ^ nat (b_attempt b))" using att k' by (rule shl1_small)
  have w: "wrap64 (b_base b * 2 ^ nat (b_attempt b)) = b_base b * 2 ^ nat (b_attempt b)"
    using rng by (rule wrap64_id)
  have w2: "wrap64 (b_attempt b + 1) = b_attempt b + 1"
    using att k' by (intro wrap64_id) (simp add: in64_def)
  show ?thesis
    by (simp add: Next_def s w w2 capped_def min_def Let_def)
qed

lemma trunc64_bounds:
  assumes "0 \<le> x"
  shows "x - 1 < real_of_int (trunc64 x)" "real_of_int (trunc64 x) \<le> x"
  using assms by (simp_all add: trunc64_def real_of_int_floor_gt_diff_one)

lemma capped_mono: "0 \<le> base \<Longrightarrow> capped base mx k \<le> capped base mx (Suc k)"
proof -
  assume b: "0 \<le> base"
  have "base * 2 ^ k \<le> base * (2 * 2 ^ k)"
    using b by (intro mult_left_mono) simp_all
  then show ?thesis by (simp add: capped_def min_def)
qed

lemma capped_bounds:
  "0 \<le> base \<Longrightarrow> 0 \<le> mx \<Longrightarrow> 0 \<le> capped base mx k \<and> capped base mx k \<le> mx"
  by (simp add: capped_def)

lemma in64_pow_mono:
  assumes "0 < base" "in64 (base * 2 ^ (k + n))"
  shows "in64 (base * 2 ^ k)"
proof -
  have "(2::int) ^ k \<le> 2 ^ (k + n)" by (intro power_increasing) simp_all
  then have "base * 2 ^ k \<le> base * 2 ^ (k + n)" using assms(1) by (intro mult_left_mono) simp_all
  moreover have "0 \<le> base * 2 ^ k" using assms(1) by simp
  ultimately show ?thesis using assms(2) by (simp add: in64_def)
qed

lemma Next_bounds:
  assumes base: "0 < b_base b" and mx: "0 \<le> b_max b"
    and jit: "0 \<le> b_jitter b" "b_jitter b \<le> 1" and u: "0 \<le> u" "u < 1"
    and att: "0 \<le> b_attempt b" and rng: "in64 (b_base b * 2 ^ nat (b_attempt b))"
  shows "\<exists>d b'. Next b u = Inr (d, b') \<and> b_attempt b' = b_attempt b + 1
           \<and> real_of_int (capped (b_base b) (b_max b) (nat (b_attempt b))) * (1 - b_jitter b) - 1
               < real_of_int d
           \<and> real_of_int d
               \<le> real_of_int (capped (b_base b) (b_max b) (nat (b_attempt b))) * (1 + b_jitter b)
           \<and> real_of_int d \<le> real_of_int (b_max b) * (1 + b_jitter b)"
proof -
  let ?D = "real_of_int (capped (b_base b) (b_max b) (nat (b_attempt b)))"
  let ?j = "b_jitter b"
  let ?f = "1 + (u * 2 - 1) * ?j"
  have D: "0 \<le> ?D" "?D \<le> real_of_int (b_max b)"
    using capped_bounds [of "b_base b" "b_max b" "nat (b_attempt b)"] base mx by simp_all
  have up: "?D * (1 + ?j) \<le> real_of_int (b_max b) * (1 + ?j)"
    using D jit by (intro mult_right_mono) simp_all
  show ?thesis
  proof (cases "?j > 0")
    case True
    have "(u * 2 - 1) * ?j \<le> 1 * ?j" using u jit by (intro mult_right_mono) simp_all
    then have f_hi: "?f \<le> 1 + ?j" by simp
    have "- 1 * ?j \<le> (u * 2 - 1) * ?j" using u jit by (intro mult_right_mono) simp_all
    then have f_lo: "1 - ?j \<le> ?f" by simp
    then have f0: "0 \<le> ?f" using jit by simp
    have x0: "0 \<le> ?D * ?f" using D f0 by simp
    have lo: "?D * (1 - ?j) \<le> ?D * ?f" using D f_lo by (intro mult_left_mono) simp_all
    have hi: "?D * ?f \<le> ?D * (1 + ?j)" using D f_hi by (intro mult_left_mono) simp_all
    let ?d = "trunc64 (?D * ?f)"
    have nv: "Next b u = Inr (?d, b\<lparr>b_attempt := b_attempt b + 1\<rparr>)"
      using True by (simp add: Next_value [OF base att rng])
    have t: "?D * ?f - 1 < real_of_int ?d" "real_of_int ?d \<le> ?D * ?f"
      using trunc64_bounds [OF x0] by simp_all
    have c1: "?D * (1 - ?j) - 1 < real_of_int ?d" using t(1) lo by linarith
    have c2: "real_of_int ?d \<le> ?D * (1 + ?j)" using t(2) hi by linarith
    have c3: "real_of_int ?d \<le> real_of_int (b_max b) * (1 + ?j)" using c2 up by linarith
    show ?thesis
      by (intro exI [of _ ?d] exI [of _ "b\<lparr>b_attempt := b_attempt b + 1\<rparr>"] conjI nv c1 c2 c3)
         simp
  next
    case False
    then have "?j = 0" using jit by simp
    with False D show ?thesis by (simp add: Next_value [OF base att rng])
  qed
qed

lemma NextAll_nojitter:
  assumes "0 < b_base b" "b_jitter b = 0" "0 \<le> b_attempt b"
    and "in64 (b_base b * 2 ^ (nat (b_attempt b) + length us))"
  shows "\<exists>ds b'. NextAll b us = Inr (ds, b') \<and> length ds = length us \<and> sorted ds
           \<and> (\<forall>d\<in>set ds. capped (b_base b) (b_max b) (nat (b_attempt b)) \<le> d)"
  using assms
proof (induction us arbitrary: b)
  case Nil then show ?case by simp
next
  case (Cons u us)
  let ?k = "nat (b_attempt b)"
  let ?b1 = "b\<lparr>b_attempt := b_attempt b + 1\<rparr>"
  let ?c = "capped (b_base b) (b_max b) ?k"
  have r0: "in64 (b_base b * 2 ^ ?k)"
    using Cons.prems(1,4) by (rule in64_pow_mono)
  have n: "Next b u = Inr (?c, ?b1)"
    unfolding Next_value [OF Cons.prems(1,3) r0] using Cons.prems(2) by simp
  have f1: "b_base ?b1 = b_base b" "b_max ?b1 = b_max b" "b_jitter ?b1 = b_jitter b"
      "b_attempt ?b1 = b_attempt b + 1"
    by simp_all
  have k1: "nat (b_attempt b + 1) = Suc ?k" using Cons.prems(3) by (simp add: nat_add_distrib)
  have e: "Suc ?k + length us = ?k + length (u # us)" by simp
  have p1: "0 < b_base ?b1" unfolding f1 by (rule Cons.prems(1))
  have p2: "b_jitter ?b1 = 0" unfolding f1 by (rule Cons.prems(2))
  have p3: "0 \<le> b_attempt ?b1" unfolding f1 using Cons.prems(3) by linarith
  have p4: "in64 (b_base ?b1 * 2 ^ (nat (b_attempt ?b1) + length us))"
    unfolding f1 k1 e by (rule Cons.prems(4))
  from Cons.IH [OF p1 p2 p3 p4] obtain ds b' where
    ih: "NextAll ?b1 us = Inr (ds, b')" "length ds = length us" "sorted ds"
        "\<forall>d\<in>set ds. capped (b_base ?b1) (b_max ?b1) (nat (b_attempt ?b1)) \<le> d"
    by blast
  have ih4: "\<forall>d\<in>set ds. capped (b_base b) (b_max b) (Suc ?k) \<le> d"
    using ih(4) unfolding f1 k1 .
  have m: "?c \<le> capped (b_base b) (b_max b) (Suc ?k)"
    using Cons.prems(1) by (intro capped_mono) simp
  have ge: "\<forall>d\<in>set ds. ?c \<le> d"
  proof
    fix d assume "d \<in> set ds"
    with ih4 have "capped (b_base b) (b_max b) (Suc ?k) \<le> d" by blast
    with m show "?c \<le> d" by (rule order_trans)
  qed
  have run: "NextAll b (u # us) = Inr (?c # ds, b')"
    by (simp add: n ih(1))
  have srt: "sorted (?c # ds)" using ih(3) ge by simp
  have len: "length (?c # ds) = length (u # us)" using ih(2) by simp
  have ge': "\<forall>d\<in>set (?c # ds). ?c \<le> d" using ge by simp
  show ?case using run srt len ge' by blast
qed

theorem backoff_bounds:
  "(0 < b_base b \<and> 0 \<le> b_max b \<and> 0 \<le> b_jitter b \<and> b_jitter b \<le> 1 \<and> 0 \<le> u \<and> u < 1
      \<and> 0 \<le> b_attempt b \<and> in64 (b_base b * 2 ^ nat (b_attempt b))
    \<longrightarrow> (\<exists>d b'. Next b u = Inr (d, b') \<and> b_attempt b' = b_attempt b + 1
           \<and> real_of_int (capped (b_base b) (b_max b) (nat (b_attempt b))) * (1 - b_jitter b) - 1
               < real_of_int d
           \<and> real_of_int d
               \<le> real_of_int (capped (b_base b) (b_max b) (nat (b_attempt b))) * (1 + b_jitter b)
           \<and> real_of_int d \<le> real_of_int (b_max b) * (1 + b_jitter b)))
   \<and> (0 < b_base b \<and> b_jitter b = 0 \<and> 0 \<le> b_attempt b
      \<and> in64 (b_base b * 2 ^ (nat (b_attempt b) + length us))
    \<longrightarrow> (\<exists>ds b'. NextAll b us = Inr (ds, b') \<and> length ds = length us \<and> sorted ds))"
proof (intro conjI impI)
  assume "0 < b_base b \<and> 0 \<le> b_max b \<and> 0 \<le> b_jitter b \<and> b_jitter b \<le> 1 \<and> 0 \<le> u \<and> u < 1
      \<and> 0 \<le> b_attempt b \<and> in64 (b_base b * 2 ^ nat (b_attempt b))"
  then show "\<exists>d b'. Next b u = Inr (d, b') \<and> b_attempt b' = b_attempt b + 1
           \<and> real_of_int (capped (b_base b) (b_max b) (nat (b_attempt b))) * (1 - b_jitter b) - 1
               < real_of_int d
           \<and> real_of_int d
               \<le> real_of_int (capped (b_base b) (b_max b) (nat (b_attempt b))) * (1 + b_jitter b)
           \<and> real_of_int d \<le> real_of_int (b_max b) * (1 + b_jitter b)"
    by (intro Next_bounds) simp_all
next
  assume "0 < b_base b \<and> b_jitter b = 0 \<and> 0 \<le> b_attempt b
      \<and> in64 (b_base b * 2 ^ (nat (b_attempt b) + length us))"
  then have "\<exists>ds b'. NextAll b us = Inr (ds, b') \<and> length ds = length us \<and> sorted ds
           \<and> (\<forall>d\<in>set ds. capped (b_base b) (b_max b) (nat (b_attempt b)) \<le> d)"
    by (intro NextAll_nojitter) simp_all
  then show "\<exists>ds b'. NextAll b us = Inr (ds, b') \<and> length ds = length us \<and> sorted ds"
    by blast
qed


theorem backoff_bounds_witness:
  "in64 (1000 * 2 ^ 5) \<and> in64 (1000 * 2 ^ (0 + length [0, 0, 0 :: real]))
   \<and> capped 1000 30000 5 = 30000
   \<and> (\<exists>d b'. Next ((New 1000 30000 (1 / 5))\<lparr>b_attempt := 5\<rparr>) 0 = Inr (d, b')
         \<and> b_attempt b' = 6 \<and> 30000 * (1 - 1 / 5) - 1 < real_of_int d
         \<and> real_of_int d \<le> 30000 * (1 + 1 / 5))
   \<and> (\<exists>ds b'. NextAll (New 1000 30000 0) [0, 0, 0] = Inr (ds, b') \<and> length ds = 3 \<and> sorted ds)"
proof -
  let ?b5 = "(New 1000 30000 (1 / 5))\<lparr>b_attempt := 5\<rparr>"
  have r1: "in64 (1000 * 2 ^ 5)" by (simp add: in64_def)
  have r2: "in64 (1000 * 2 ^ (0 + length [0, 0, 0 :: real]))" by (simp add: in64_def)
  have cp: "capped 1000 30000 5 = 30000" by (simp add: capped_def)
  have a: "\<exists>d b'. Next ?b5 0 = Inr (d, b') \<and> b_attempt b' = b_attempt ?b5 + 1
           \<and> real_of_int (capped (b_base ?b5) (b_max ?b5) (nat (b_attempt ?b5)))
                * (1 - b_jitter ?b5) - 1 < real_of_int d
           \<and> real_of_int d
               \<le> real_of_int (capped (b_base ?b5) (b_max ?b5) (nat (b_attempt ?b5)))
                   * (1 + b_jitter ?b5)
           \<and> real_of_int d \<le> real_of_int (b_max ?b5) * (1 + b_jitter ?b5)"
    by (rule backoff_bounds [of ?b5 0 "[]", THEN conjunct1, THEN mp])
       (simp add: New_def in64_def)
  have n5: "nat (b_attempt ?b5) = 5" "b_base ?b5 = 1000" "b_max ?b5 = 30000"
      "b_jitter ?b5 = 1 / 5" "b_attempt ?b5 = 5"
    by (simp_all add: New_def)
  have a': "\<exists>d b'. Next ?b5 0 = Inr (d, b')
         \<and> b_attempt b' = 6 \<and> 30000 * (1 - 1 / 5) - 1 < real_of_int d
         \<and> real_of_int d \<le> 30000 * (1 + 1 / 5)"
    using a by (auto simp add: n5 cp)
  have b: "\<exists>ds b'. NextAll (New 1000 30000 0) [0, 0, 0] = Inr (ds, b')
             \<and> length ds = length [0, 0, 0 :: real] \<and> sorted ds"
    by (rule backoff_bounds [of "New 1000 30000 0" 0 "[0, 0, 0]", THEN conjunct2, THEN mp])
       (simp add: New_def in64_def)
  have b': "\<exists>ds b'. NextAll (New 1000 30000 0) [0, 0, 0] = Inr (ds, b') \<and> length ds = 3 \<and> sorted ds"
    using b by (simp del: NextAll.simps add: numeral_3_eq_3)
  show ?thesis using r1 r2 cp a' b' by blast
qed

text \<open>
  The claim as stated fails in both parts. Once the cap applies, the value can lie below
  \<open>2^attempt * base * (1 - jitter)\<close>: with base 1000, max 30000, jitter 0.2 and the
  draw 0, attempt 5 returns 24000, below 25600. With jitter, successive values can
  decrease before the cap is reached: with jitter 0.5 and the draws 0.9 and 0, the
  values are 1400 and then 1000.
\<close>

lemma Next_attempt5:
  "Next ((New 1000 30000 (1 / 5))\<lparr>b_attempt := 5\<rparr>) 0
     = Inr (24000, (New 1000 30000 (1 / 5))\<lparr>b_attempt := 6\<rparr>)"
  by (simp add: New_def Next_def shl1_def trunc64_def wrap64_def Let_def)

lemma Next_jitter_first:
  "Next (New 1000 30000 (1 / 2)) (9 / 10)
     = Inr (1400, (New 1000 30000 (1 / 2))\<lparr>b_attempt := 1\<rparr>)"
  by (simp add: New_def Next_def shl1_def trunc64_def wrap64_def Let_def)

lemma Next_jitter_second:
  "Next ((New 1000 30000 (1 / 2))\<lparr>b_attempt := 1\<rparr>) 0
     = Inr (1000, (New 1000 30000 (1 / 2))\<lparr>b_attempt := 2\<rparr>)"
  by (simp add: New_def Next_def shl1_def trunc64_def wrap64_def Let_def)

theorem backoff_bounds_counterexample:
  "Next ((New 1000 30000 (1 / 5))\<lparr>b_attempt := 5\<rparr>) 0
     = Inr (24000, (New 1000 30000 (1 / 5))\<lparr>b_attempt := 6\<rparr>)
   \<and> \<not> ((2 :: real) ^ 5 * 1000 * (1 - 1 / 5) \<le> 24000)
   \<and> NextAll (New 1000 30000 (1 / 2)) [9 / 10, 0]
     = Inr ([1400, 1000], (New 1000 30000 (1 / 2))\<lparr>b_attempt := 2\<rparr>)
   \<and> \<not> sorted [1400, 1000 :: int]"
  by (simp add: Next_attempt5 Next_jitter_first Next_jitter_second)

end
